theory Spec2Isabelle
  imports Complex_Main "HOL-Library.AList"
begin

section \<open>The colorized logger of algorithms-keeper (\<^verbatim>\<open>algorithms_keeper/log.py\<close>)\<close>

text \<open>
  A shallow embedding of \<^verbatim>\<open>log.py\<close>. Python strings are \<open>string\<close> (the model covers
  ASCII text: \<^verbatim>\<open>str.upper\<close> is modelled on the letters a to z only). Dictionaries are
  association lists in insertion order, read with \<open>map_of\<close> and written with
  \<open>AList.update\<close>, which like a Python item assignment keeps the position of an existing key
  and appends a new one. Every exception the source can raise is a value of \<open>error\<close>;
  functions that can raise return \<open>error + 'a\<close> with \<open>Inl\<close> the exception.
\<close>

subsection \<open>Exceptions and dynamically typed values\<close>

datatype error =
    AttributeError
  | KeyError
  | TypeError
  | ValueError
  | Unsupported
    \<comment> \<open>not a Python exception: the input leaves the fragment of Python the model covers\<close>

text \<open>The values a structured log argument can hold (\<^verbatim>\<open>Any\<close> in the source).\<close>

datatype pyval = PyStr string | PyInt int | PyBool bool | PyNone

text \<open>The decimal digit of a number below ten.\<close>

definition digit_char :: "nat \<Rightarrow> char" where
  "digit_char n = ''0123456789'' ! (n mod 10)"

function str_nat :: "nat \<Rightarrow> string" where
  "str_nat n = (if n < 10 then [digit_char n] else str_nat (n div 10) @ [digit_char (n mod 10)])"
  by pat_completeness auto
termination
  by (relation "measure (\<lambda>n. n)") auto

declare str_nat.simps [simp del]

text \<open>\<^verbatim>\<open>str\<close> of a Python integer: decimal digits, with a minus sign when negative.\<close>

definition str_int :: "int \<Rightarrow> string" where
  "str_int i = (if i < 0 then CHR ''-'' # str_nat (nat (- i)) else str_nat (nat i))"

fun str :: "pyval \<Rightarrow> string" where
  "str (PyStr s) = s"
| "str (PyInt i) = str_int i"
| "str (PyBool b) = (if b then ''True'' else ''False'')"
| "str PyNone = ''None''"

text \<open>\<^verbatim>\<open>str.upper\<close> on ASCII text.\<close>

definition upper_char :: "char \<Rightarrow> char" where
  "upper_char c =
     (case map_of (zip ''abcdefghijklmnopqrstuvwxyz'' ''ABCDEFGHIJKLMNOPQRSTUVWXYZ'') c of
        Some u \<Rightarrow> u
      | None \<Rightarrow> c)"

definition upper :: "string \<Rightarrow> string" where
  "upper s = map upper_char s"

subsection \<open>Color codec: \<^verbatim>\<open>CSI\<close>, \<^verbatim>\<open>colorcode\<close>, class \<^verbatim>\<open>AnsiColor\<close>\<close>

definition CSI :: string where
  "CSI = [CHR 0x1B, CHR ''['']"

definition colorcode :: "int \<Rightarrow> string" where
  "colorcode code = CSI @ str_int code @ ''m''"

definition BLACK :: string where "BLACK = colorcode 30"
definition RED :: string where "RED = colorcode 31"
definition GREEN :: string where "GREEN = colorcode 32"
definition YELLOW :: string where "YELLOW = colorcode 33"
definition BLUE :: string where "BLUE = colorcode 34"
definition MAGENTA :: string where "MAGENTA = colorcode 35"
definition CYAN :: string where "CYAN = colorcode 36"
definition WHITE :: string where "WHITE = colorcode 37"
definition RESET :: string where "RESET = colorcode 39"

definition BOLD :: string where "BOLD = colorcode 1"
definition DIM :: string where "DIM = colorcode 2"
definition UNDERLINE :: string where "UNDERLINE = colorcode 4"
definition NORMAL :: string where "NORMAL = colorcode 22"
definition RESET_ALL :: string where "RESET_ALL = colorcode 0"

definition DEBUG :: string where "DEBUG = DIM"
definition INFO :: string where "INFO = DIM"
definition WARNING :: string where "WARNING = YELLOW"
definition ERROR :: string where "ERROR = RED"
definition CRITICAL :: string where "CRITICAL = MAGENTA @ BOLD"

text \<open>The string-valued attributes of class \<^verbatim>\<open>AnsiColor\<close>, by name.\<close>

definition AnsiColor_attrs :: "(string \<times> string) list" where
  "AnsiColor_attrs =
     [(''BLACK'', BLACK), (''RED'', RED), (''GREEN'', GREEN), (''YELLOW'', YELLOW),
      (''BLUE'', BLUE), (''MAGENTA'', MAGENTA), (''CYAN'', CYAN), (''WHITE'', WHITE),
      (''RESET'', RESET), (''BOLD'', BOLD), (''DIM'', DIM), (''UNDERLINE'', UNDERLINE),
      (''NORMAL'', NORMAL), (''RESET_ALL'', RESET_ALL), (''DEBUG'', DEBUG), (''INFO'', INFO),
      (''WARNING'', WARNING), (''ERROR'', ERROR), (''CRITICAL'', CRITICAL)]"

text \<open>
  Names that \<^verbatim>\<open>getattr\<close> resolves to something that is not one of the strings above: the
  method \<^verbatim>\<open>inject\<close> and the double-underscore names of the object protocol. What they
  render to depends on the interpreter, so the model reports them as \<open>Unsupported\<close> (some of
  the double-underscore names would raise \<^verbatim>\<open>AttributeError\<close> instead).
\<close>

definition other_attr :: "string \<Rightarrow> bool" where
  "other_attr name \<longleftrightarrow> name = ''inject'' \<or> (take 2 name = ''__'' \<and> take 2 (rev name) = ''__'')"

text \<open>\<^verbatim>\<open>getattr(AnsiColor, name)\<close> and \<^verbatim>\<open>getattr(Color, name)\<close>, with no default.\<close>

definition AnsiColor_getattr :: "string \<Rightarrow> error + string" where
  "AnsiColor_getattr name =
     (case map_of AnsiColor_attrs name of
        Some code \<Rightarrow> Inr code
      | None \<Rightarrow> if other_attr name then Inl Unsupported else Inl AttributeError)"

text \<open>
  \<^verbatim>\<open>AnsiColor.inject\<close>: the list \<^verbatim>\<open>msgparts\<close> is built left to right, so the first failing
  \<^verbatim>\<open>getattr\<close> among color, style, reset is the one that raises.
\<close>

definition inject :: "string \<Rightarrow> string \<Rightarrow> string \<Rightarrow> string \<Rightarrow> error + string" where
  "inject msg color style reset =
     (case AnsiColor_getattr (upper color) of
        Inl e \<Rightarrow> Inl e
      | Inr c \<Rightarrow>
          (case AnsiColor_getattr (upper style) of
             Inl e \<Rightarrow> Inl e
           | Inr s \<Rightarrow>
               (case AnsiColor_getattr (upper reset) of
                  Inl e \<Rightarrow> Inl e
                | Inr r \<Rightarrow> Inr (concat [RESET_ALL, c, s, msg, RESET_ALL, r]))))"

subsection \<open>Field style registry: \<^verbatim>\<open>MSG_ARGS_FORMAT\<close>, \<^verbatim>\<open>STATUS_OK\<close>\<close>

type_synonym field_style = "(string \<times> string) list"
type_synonym registry = "(string \<times> field_style) list"

text \<open>The registry as the module creates it at import time.\<close>

definition MSG_ARGS_FORMAT :: registry where
  "MSG_ARGS_FORMAT =
     [(''event'', [(''color'', ''green'')]),
      (''ratelimit'', [(''color'', ''white''), (''style'', ''bold'')]),
      (''time_remaining'', [(''color'', ''white''), (''style'', ''bold'')]),
      (''url'', [(''color'', ''blue''), (''style'', ''underline'')]),
      (''file'', [(''color'', ''yellow'')]),
      (''request'', [(''color'', ''yellow'')]),
      (''time'', [(''color'', ''yellow'')]),
      (''status'', [(''color'', ''''), (''style'', ''bold'')]),
      (''method'', [(''color'', ''magenta''), (''style'', ''bold'')]),
      (''path'', [(''color'', ''blue'')]),
      (''data'', [(''color'', ''yellow'')]),
      (''version'', [(''color'', ''yellow'')])]"

definition STATUS_OK :: "int list" where
  "STATUS_OK = [200, 201, 204]"

subsection \<open>Module state\<close>

text \<open>
  What the module's functions can write: the registry (a module-level dictionary), the
  \<^verbatim>\<open>_style._fmt\<close> field of the \<^verbatim>\<open>CustomFormatter\<close> object installed on the handler, and the
  logger, represented by the list of logging calls it has received. A logging call runs
  the handlers, and with them the formatter, before it returns; so each call is listed
  with the registry as it stands while the call runs, which is the registry the formatter
  reads the status color from.
\<close>

datatype severity = logger_debug | logger_error

type_synonym dict = "(string \<times> pyval) list"

record logging_call =
  call_level :: severity
  call_msg :: string
  call_args :: dict
  call_registry :: registry

record state =
  registry :: registry
  style_fmt :: string
  emitted :: "logging_call list"

text \<open>
  The state after import: \<^verbatim>\<open>CustomFormatter()\<close> is built with no format string, so the base
  class sets \<^verbatim>\<open>_style._fmt\<close> to its default \<^verbatim>\<open>"%(message)s"\<close>.
\<close>

definition initial_state :: state where
  "initial_state = \<lparr>registry = MSG_ARGS_FORMAT, style_fmt = ''%(message)s'', emitted = []\<rparr>"

subsection \<open>Status classifier: \<^verbatim>\<open>inject_status_color\<close>\<close>

text \<open>
  \<^verbatim>\<open>MSG_ARGS_FORMAT["status"]["color"] = "green" if status in STATUS_OK else "red"\<close>.
  The subscript \<^verbatim>\<open>["status"]\<close> raises \<^verbatim>\<open>KeyError\<close> on a registry without that key; the
  assertion on the type of \<^verbatim>\<open>status\<close> holds for every \<open>int\<close>.
\<close>

definition inject_status_color :: "int \<Rightarrow> state \<Rightarrow> error + state" where
  "inject_status_color status s =
     (case map_of (registry s) ''status'' of
        None \<Rightarrow> Inl KeyError
      | Some c \<Rightarrow>
          Inr (s\<lparr>registry :=
                  AList.update ''status''
                    (AList.update ''color'' (if status \<in> set STATUS_OK then ''green'' else ''red'') c)
                    (registry s)\<rparr>))"

subsection \<open>Argument formatter: \<^verbatim>\<open>format_args\<close>\<close>

text \<open>
  The body of the loop for one item: the value that is stored under \<^verbatim>\<open>key\<close>. The style is
  read first, then \<^verbatim>\<open>str(value)\<close>, then \<^verbatim>\<open>c["color"]\<close>, then \<^verbatim>\<open>Color.inject\<close> runs.
\<close>

definition format_value :: "registry \<Rightarrow> string \<Rightarrow> string \<Rightarrow> pyval \<Rightarrow> error + pyval" where
  "format_value reg level key val =
     (case map_of reg key of
        None \<Rightarrow> Inr val
      | Some c \<Rightarrow>
          (let style = (case map_of c ''style'' of None \<Rightarrow> ''normal'' | Some st \<Rightarrow> st)
           in case map_of c ''color'' of
                None \<Rightarrow> Inl KeyError
              | Some color \<Rightarrow>
                  (case inject (str val) color style level of
                     Inl e \<Rightarrow> Inl e
                   | Inr v \<Rightarrow> Inr (PyStr v))))"

text \<open>The loop over \<^verbatim>\<open>args.items()\<close>, with the dictionary \<^verbatim>\<open>formatted\<close> as accumulator.\<close>

fun format_args_loop :: "registry \<Rightarrow> string \<Rightarrow> dict \<Rightarrow> dict \<Rightarrow> error + dict" where
  "format_args_loop reg level formatted [] = Inr formatted"
| "format_args_loop reg level formatted ((key, val) # items) =
     (case format_value reg level key val of
        Inl e \<Rightarrow> Inl e
      | Inr v \<Rightarrow> format_args_loop reg level (AList.update key v formatted) items)"

definition format_args :: "registry \<Rightarrow> dict \<Rightarrow> string \<Rightarrow> error + dict" where
  "format_args reg args level = format_args_loop reg level [] args"

subsection \<open>Access logger: \<^verbatim>\<open>CustomAccessLogger\<close>\<close>

record request =
  req_method :: string
  path_qs :: string
  scheme :: string
  version_major :: int
  version_minor :: int

record response =
  status :: int
  reason :: string

text \<open>
  The fields the base class \<^verbatim>\<open>AbstractAccessLogger\<close> stores on the object: the name of the
  logger it was given and the format string it was given.
\<close>

record access_logger =
  logger_name :: string
  log_format :: string

definition LOG_FORMAT :: string where
  "LOG_FORMAT = ''%(logger)s \"%(method)s %(path)s %(version)s\" => %(status)s %(time)s''"

text \<open>
  Python's \<^verbatim>\<open>round\<close> with one argument: to the nearest integer, a tie to the even one. The
  elapsed time is a float in the source; the model takes the number it denotes as a
  rational and multiplies exactly, so the binary rounding of the product
  \<^verbatim>\<open>time * 1000\<close> is not modelled.
\<close>

definition py_round :: "rat \<Rightarrow> int" where
  "py_round x =
     (let f = \<lfloor>x\<rfloor>; d = x - of_int f
      in if d < 1 / 2 then f else if 1 / 2 < d then f + 1 else if even f then f else f + 1)"

text \<open>The logger receives a call.\<close>

definition emit :: "logging_call \<Rightarrow> state \<Rightarrow> state" where
  "emit c s = s\<lparr>emitted := emitted s @ [c]\<rparr>"

text \<open>
  The call \<^verbatim>\<open>loggerlevel(msg, args)\<close> made in a state: the logger receives it with the
  registry of that state.
\<close>

definition logger_call :: "severity \<Rightarrow> string \<Rightarrow> dict \<Rightarrow> state \<Rightarrow> state" where
  "logger_call lvl m a s =
     emit \<lparr>call_level = lvl, call_msg = m, call_args = a, call_registry = registry s\<rparr> s"

definition log_args :: "access_logger \<Rightarrow> request \<Rightarrow> response \<Rightarrow> rat \<Rightarrow> dict" where
  "log_args self req resp time =
     [(''logger'', PyStr (logger_name self)),
      (''method'', PyStr (req_method req)),
      (''path'', PyStr (path_qs req)),
      (''version'',
         PyStr (upper (scheme req) @ ''/'' @ str_int (version_major req) @ ''.''
                @ str_int (version_minor req))),
      (''status'', PyStr (str_int (status resp) @ '':'' @ reason resp)),
      (''time'', PyStr (str_int (py_round (time * 1000)) @ ''ms''))]"

text \<open>
  \<^verbatim>\<open>CustomAccessLogger.log\<close> (the name \<open>log\<close> is the logarithm in HOL). The level is
  chosen first, then the status color is set, then the one logging call is made with the
  argument dictionary built from the request, the response and the elapsed time.
\<close>

definition log_access :: "access_logger \<Rightarrow> request \<Rightarrow> response \<Rightarrow> rat \<Rightarrow> state \<Rightarrow> error + state" where
  "log_access self req resp time s =
     (let loggerlevel = (if status resp \<in> set STATUS_OK then logger_debug else logger_error)
      in case inject_status_color (status resp) s of
           Inl e \<Rightarrow> Inl e
         | Inr s1 \<Rightarrow>
             Inr (logger_call loggerlevel (log_format self) (log_args self req resp time) s1))"

subsection \<open>Log records and printf-style interpolation\<close>

text \<open>
  \<^verbatim>\<open>record.args\<close> is a tuple of positional arguments (empty when the logging call had
  none) or a dictionary.
\<close>

datatype record_args = TupleArgs "pyval list" | DictArgs dict

text \<open>
  The fields of \<^verbatim>\<open>logging.LogRecord\<close> that \<^verbatim>\<open>format\<close> reads or writes. \<open>exc_info\<close> holds the
  text that \<^verbatim>\<open>formatException\<close> renders for the attached exception; \<open>message\<close> does not exist
  on a record until a formatter sets it.
\<close>

record log_record =
  levelname :: string
  msg :: string
  args :: record_args
  exc_info :: "string option"
  exc_text :: "string option"
  stack_info :: "string option"
  message :: "string option"

text \<open>
  The operator \<^verbatim>\<open>fmt % args\<close> of Python strings, as a scanner over the characters of
  \<^verbatim>\<open>fmt\<close>. The model covers the conversions \<^verbatim>\<open>%(key)s\<close>, \<^verbatim>\<open>%s\<close> and \<^verbatim>\<open>%%\<close>; flags, widths,
  other conversion types, parentheses nested in a key, and \<^verbatim>\<open>%s\<close> applied to a dictionary
  are reported as \<open>Unsupported\<close>.
\<close>

datatype scan = Text | AfterPercent | InKey string | AfterKey string

fun prepend :: "string \<Rightarrow> error + string \<Rightarrow> error + string" where
  "prepend s (Inl e) = Inl e"
| "prepend s (Inr t) = Inr (s @ t)"

fun interpolate :: "scan \<Rightarrow> record_args \<Rightarrow> string \<Rightarrow> error + string" where
  "interpolate Text a [] = (case a of TupleArgs (v # vs) \<Rightarrow> Inl TypeError | _ \<Rightarrow> Inr [])"
| "interpolate Text a (c # cs) =
     (if c = CHR ''%'' then interpolate AfterPercent a cs
      else prepend [c] (interpolate Text a cs))"
| "interpolate AfterPercent a [] = Inl ValueError"
| "interpolate AfterPercent a (c # cs) =
     (if c = CHR ''%'' then prepend ''%'' (interpolate Text a cs)
      else if c = CHR ''('' then
        (case a of
           TupleArgs vs \<Rightarrow> Inl TypeError
         | DictArgs d \<Rightarrow> interpolate (InKey []) a cs)
      else if c = CHR ''s'' then
        (case a of
           TupleArgs [] \<Rightarrow> Inl TypeError
         | TupleArgs (v # vs) \<Rightarrow> prepend (str v) (interpolate Text (TupleArgs vs) cs)
         | DictArgs d \<Rightarrow> Inl Unsupported)
      else Inl Unsupported)"
| "interpolate (InKey k) a [] = Inl ValueError"
| "interpolate (InKey k) a (c # cs) =
     (if c = CHR '')'' then interpolate (AfterKey k) a cs
      else if c = CHR ''('' then Inl Unsupported
      else interpolate (InKey (k @ [c])) a cs)"
| "interpolate (AfterKey k) a [] = Inl ValueError"
| "interpolate (AfterKey k) a (c # cs) =
     (if c = CHR ''s'' then
        (case a of
           TupleArgs vs \<Rightarrow> Inl TypeError
         | DictArgs d \<Rightarrow>
             (case map_of d k of
                None \<Rightarrow> Inl KeyError
              | Some v \<Rightarrow> prepend (str v) (interpolate Text a cs)))
      else Inl Unsupported)"

definition percent :: "string \<Rightarrow> record_args \<Rightarrow> error + string" where
  "percent fmt a = interpolate Text a fmt"

text \<open>Python truthiness of the values \<^verbatim>\<open>format\<close> tests.\<close>

fun truthy_args :: "record_args \<Rightarrow> bool" where
  "truthy_args (TupleArgs vs) \<longleftrightarrow> vs \<noteq> []"
| "truthy_args (DictArgs d) \<longleftrightarrow> d \<noteq> []"

fun truthy_text :: "string option \<Rightarrow> bool" where
  "truthy_text None \<longleftrightarrow> False"
| "truthy_text (Some t) \<longleftrightarrow> t \<noteq> []"

text \<open>\<^verbatim>\<open>LogRecord.getMessage\<close>: interpolate only when \<^verbatim>\<open>args\<close> is truthy.\<close>

definition getMessage :: "log_record \<Rightarrow> error + string" where
  "getMessage r = (if truthy_args (args r) then percent (msg r) (args r) else Inr (msg r))"

subsection \<open>Record formatter: \<^verbatim>\<open>CustomFormatter\<close>\<close>

definition default_fmt :: string where
  "default_fmt = ''[%(levelname)s] %(message)s''"

definition LOG_LEVEL_FORMAT :: "(string \<times> string) list" where
  "LOG_LEVEL_FORMAT =
     [(''DEBUG'', DEBUG @ default_fmt @ RESET_ALL),
      (''INFO'', INFO @ default_fmt @ RESET_ALL),
      (''WARNING'', WARNING @ default_fmt @ RESET_ALL),
      (''ERROR'', ERROR @ default_fmt @ RESET_ALL),
      (''CRITICAL'', CRITICAL @ default_fmt @ RESET_ALL)]"

definition newline :: char where
  "newline = CHR 0x0A"

text \<open>\<^verbatim>\<open>if msg[-1:] != "\n": msg += "\n"\<close>.\<close>

definition end_line :: "string \<Rightarrow> string" where
  "end_line m = (if m \<noteq> [] \<and> last m = newline then m else m @ [newline])"

text \<open>
  \<^verbatim>\<open>msg.replace("\n", f"\n{c}")\<close>: the pattern is one character, so the replacement acts on
  each character of the string by itself.
\<close>

definition recolor :: "string \<Rightarrow> string \<Rightarrow> string" where
  "recolor c m = concat (map (\<lambda>x. if x = newline then newline # c else [x]) m)"

text \<open>
  \<^verbatim>\<open>Formatter.formatMessage\<close>: the style's template, which \<^verbatim>\<open>format\<close> has just overwritten,
  interpolated with the record's attribute dictionary. Of that dictionary the model lists
  the attributes a template of this module can refer to.
\<close>

definition formatMessage :: "state \<Rightarrow> log_record \<Rightarrow> error + string" where
  "formatMessage s r =
     percent (style_fmt s)
       (DictArgs
          ((''levelname'', PyStr (levelname r)) # (''msg'', PyStr (msg r)) #
           (case message r of None \<Rightarrow> [] | Some m \<Rightarrow> [(''message'', PyStr m)])))"

text \<open>
  \<^verbatim>\<open>CustomFormatter.format\<close>. The result is the returned line or the exception raised,
  together with the record and the module state as the call leaves them: what was
  written before an exception stays written.
\<close>

definition format_colorize :: "state \<Rightarrow> log_record \<Rightarrow> error + log_record" where
  "format_colorize s r =
     (case args r of
        DictArgs d \<Rightarrow>
          (if d \<noteq> [] then
             (case format_args (registry s) d (levelname r) of
                Inl e \<Rightarrow> Inl e
              | Inr formatted \<Rightarrow> Inr (r\<lparr>args := DictArgs formatted\<rparr>))
           else Inr r)
      | TupleArgs vs \<Rightarrow> Inr r)"

definition format_exc_cache :: "log_record \<Rightarrow> log_record" where
  "format_exc_cache r =
     (case exc_info r of
        Some rendered \<Rightarrow> (if \<not> truthy_text (exc_text r) then r\<lparr>exc_text := Some rendered\<rparr> else r)
      | None \<Rightarrow> r)"

definition format_exc_append :: "log_record \<Rightarrow> string \<Rightarrow> error + string" where
  "format_exc_append r m =
     (if truthy_text (exc_text r) then
        (case AnsiColor_getattr (levelname r) of
           Inl e \<Rightarrow> Inl e
         | Inr c \<Rightarrow> Inr (recolor c (end_line m @ the (exc_text r))))
      else Inr m)"

definition format_stack_append :: "log_record \<Rightarrow> string \<Rightarrow> string" where
  "format_stack_append r m =
     (if truthy_text (stack_info r) then end_line m @ the (stack_info r) else m)"

definition format :: "log_record \<Rightarrow> state \<Rightarrow> (error + string) \<times> log_record \<times> state" where
  "format record s =
     (let custom_fmt = (case map_of LOG_LEVEL_FORMAT (levelname record) of
                          Some f \<Rightarrow> f
                        | None \<Rightarrow> default_fmt);
          s1 = s\<lparr>style_fmt := custom_fmt\<rparr>
      in case format_colorize s1 record of
           Inl e \<Rightarrow> (Inl e, record, s1)
         | Inr r1 \<Rightarrow>
             (case getMessage r1 of
                Inl e \<Rightarrow> (Inl e, r1, s1)
              | Inr m \<Rightarrow>
                  (let r2 = format_exc_cache r1
                   in case format_exc_append r2 m of
                        Inl e \<Rightarrow> (Inl e, r2, s1)
                      | Inr m2 \<Rightarrow>
                          (let r3 = r2\<lparr>message := Some (format_stack_append r2 m2)\<rparr>
                           in (formatMessage s1 r3, r3, s1)))))"

subsection \<open>The logging substrate and the reachable module states\<close>

text \<open>
  \<^verbatim>\<open>Logger.makeRecord\<close> for a call \<^verbatim>\<open>logger.debug(msg, args)\<close> or \<^verbatim>\<open>logger.error(msg, args)\<close>
  with one dictionary argument: the record has the level's name, and the dictionary,
  when it is not empty, becomes \<^verbatim>\<open>record.args\<close>; an empty one stays wrapped in the
  argument tuple, which the model does not represent.
\<close>

definition makeRecord :: "logging_call \<Rightarrow> log_record" where
  "makeRecord c =
     \<lparr>levelname = (case call_level c of logger_debug \<Rightarrow> ''DEBUG'' | logger_error \<Rightarrow> ''ERROR''),
      msg = call_msg c,
      args = DictArgs (call_args c),
      exc_info = None, exc_text = None, stack_info = None, message = None\<rparr>"

text \<open>The status color slot: \<^verbatim>\<open>MSG_ARGS_FORMAT["status"]["color"]\<close>.\<close>

definition status_color_slot :: "state \<Rightarrow> string option" where
  "status_color_slot s =
     (case map_of (registry s) ''status'' of None \<Rightarrow> None | Some c \<Rightarrow> map_of c ''color'')"

text \<open>
  The module states that runs of the program pass through, starting from the state after
  import and taking any of the module's operations as a step. The flag tells whether a
  status has been classified on the way.
\<close>

inductive reach :: "bool \<Rightarrow> state \<Rightarrow> bool" where
  reach_import: "reach False initial_state"
| reach_classify: "reach b s \<Longrightarrow> inject_status_color code s = Inr s' \<Longrightarrow> reach True s'"
| reach_log: "reach b s \<Longrightarrow> log_access self req resp t s = Inr s' \<Longrightarrow> reach True s'"
| reach_format: "reach b s \<Longrightarrow> format r s = (res, r', s') \<Longrightarrow> reach b s'"

text \<open>The registry of the module with a given text in the status color slot.\<close>

definition registry_with :: "string \<Rightarrow> registry" where
  "registry_with col =
     AList.update ''status'' [(''color'', col), (''style'', ''bold'')] MSG_ARGS_FORMAT"

text \<open>
  The line a level's template renders around a message: \<^verbatim>\<open>[LEVEL] message\<close>, between the
  color code of the level and reset-all when the level name is one of the five keys of
  \<^verbatim>\<open>LOG_LEVEL_FORMAT\<close>, and plain otherwise.
\<close>

definition final_line :: "string \<Rightarrow> string \<Rightarrow> string" where
  "final_line lvl m =
     (case map_of LOG_LEVEL_FORMAT lvl of
        None \<Rightarrow> ''['' @ lvl @ ''] '' @ m
      | Some f \<Rightarrow> the (map_of AnsiColor_attrs lvl) @ ''['' @ lvl @ ''] '' @ m @ RESET_ALL)"

text \<open>
  One item of \<^verbatim>\<open>formatted\<close> against the item of \<^verbatim>\<open>args\<close> it was made from: the same key,
  and the value the loop body computed for it.
\<close>

definition item_formatted ::
    "registry \<Rightarrow> string \<Rightarrow> string \<times> pyval \<Rightarrow> string \<times> pyval \<Rightarrow> bool" where
  "item_formatted reg level a b \<longleftrightarrow>
     fst b = fst a \<and> format_value reg level (fst a) (snd a) = Inr (snd b)"

subsection \<open>Sample records\<close>

text \<open>A record with a \<^verbatim>\<open>status\<close> argument, as any logging call of the program can make.\<close>

definition status_record :: log_record where
  "status_record =
     \<lparr>levelname = ''INFO'', msg = ''%(status)s'',
      args = DictArgs [(''status'', PyStr ''200:OK'')],
      exc_info = None, exc_text = None, stack_info = None, message = None\<rparr>"

text \<open>A plain record: \<^verbatim>\<open>logger.debug("ready")\<close>.\<close>

definition debug_record :: log_record where
  "debug_record =
     \<lparr>levelname = ''DEBUG'', msg = ''ready'', args = TupleArgs [],
      exc_info = None, exc_text = None, stack_info = None, message = None\<rparr>"

text \<open>
  \<^verbatim>\<open>logger.log(5, "boom", exc_info=True)\<close> inside an exception handler: the logging module
  names a level without a registered name \<^verbatim>\<open>"Level 5"\<close>.
\<close>

definition level5_record :: log_record where
  "level5_record =
     \<lparr>levelname = ''Level 5'', msg = ''boom'', args = TupleArgs [],
      exc_info = Some ''ValueError: boom'', exc_text = None, stack_info = None,
      message = None\<rparr>"

text \<open>An error record whose message has two lines and whose exception text has two lines.\<close>

definition multiline_record :: log_record where
  "multiline_record =
     \<lparr>levelname = ''ERROR'', msg = [CHR ''a'', newline, CHR ''b''], args = TupleArgs [],
      exc_info = None, exc_text = Some [CHR ''e'', newline, CHR ''f''], stack_info = None,
      message = None\<rparr>"

text \<open>
  The two exchanges of the specification's scenarios, logged by an access logger that was
  built on the logger named \<^verbatim>\<open>bot\<close> with the class's \<^verbatim>\<open>LOG_FORMAT\<close> as format.
\<close>

definition bot_logger :: access_logger where
  "bot_logger = \<lparr>logger_name = ''bot'', log_format = LOG_FORMAT\<rparr>"

definition get_request :: request where
  "get_request = \<lparr>req_method = ''GET'', path_qs = ''/webhook'', scheme = ''http'',
     version_major = 1, version_minor = 1\<rparr>"

definition ok_response :: response where
  "ok_response = \<lparr>status = 200, reason = ''OK''\<rparr>"

definition post_request :: request where
  "post_request = \<lparr>req_method = ''POST'', path_qs = ''/hook?x=1'', scheme = ''http'',
     version_major = 1, version_minor = 1\<rparr>"

definition error_response :: response where
  "error_response = \<lparr>status = 500, reason = ''Internal Server Error''\<rparr>"

text \<open>
  \<^verbatim>\<open>logger.info("GET %(url)s", {"url": "u"}, exc_info=True)\<close> inside a handler of a
  \<^verbatim>\<open>KeyError\<close>.
\<close>

definition url_record :: log_record where
  "url_record =
     \<lparr>levelname = ''INFO'', msg = ''GET %(url)s'', args = DictArgs [(''url'', PyStr ''u'')],
      exc_info = Some ''KeyError'', exc_text = None, stack_info = None, message = None\<rparr>"

section \<open>Properties\<close>

subsection \<open>Evaluating the constants\<close>

lemma str_int_codes:
  "str_int 0 = ''0''" "str_int 1 = ''1''" "str_int 2 = ''2''" "str_int 4 = ''4''"
  "str_int 22 = ''22''" "str_int 30 = ''30''" "str_int 31 = ''31''" "str_int 32 = ''32''"
  "str_int 33 = ''33''" "str_int 34 = ''34''" "str_int 35 = ''35''" "str_int 36 = ''36''"
  "str_int 37 = ''37''" "str_int 39 = ''39''"
  by (simp_all add: str_int_def str_nat.simps digit_char_def)

lemma upper_names:
  "upper [] = []"
  "upper ''red'' = ''RED''" "upper ''green'' = ''GREEN''" "upper ''blue'' = ''BLUE''"
  "upper ''yellow'' = ''YELLOW''" "upper ''white'' = ''WHITE''" "upper ''magenta'' = ''MAGENTA''"
  "upper ''bold'' = ''BOLD''" "upper ''underline'' = ''UNDERLINE''" "upper ''normal'' = ''NORMAL''"
  "upper ''debug'' = ''DEBUG''" "upper ''http'' = ''HTTP''"
  "upper ''DEBUG'' = ''DEBUG''" "upper ''INFO'' = ''INFO''" "upper ''WARNING'' = ''WARNING''"
  "upper ''ERROR'' = ''ERROR''" "upper ''CRITICAL'' = ''CRITICAL''"
  "upper ''Level 5'' = ''LEVEL 5''"
  by (simp_all add: upper_def upper_char_def)

lemma getattr_names:
  "AnsiColor_getattr ''RED'' = Inr RED" "AnsiColor_getattr ''GREEN'' = Inr GREEN"
  "AnsiColor_getattr ''BLUE'' = Inr BLUE" "AnsiColor_getattr ''YELLOW'' = Inr YELLOW"
  "AnsiColor_getattr ''WHITE'' = Inr WHITE" "AnsiColor_getattr ''MAGENTA'' = Inr MAGENTA"
  "AnsiColor_getattr ''BOLD'' = Inr BOLD" "AnsiColor_getattr ''UNDERLINE'' = Inr UNDERLINE"
  "AnsiColor_getattr ''NORMAL'' = Inr NORMAL"
  "AnsiColor_getattr ''DEBUG'' = Inr DEBUG" "AnsiColor_getattr ''INFO'' = Inr INFO"
  "AnsiColor_getattr ''WARNING'' = Inr WARNING" "AnsiColor_getattr ''ERROR'' = Inr ERROR"
  "AnsiColor_getattr ''CRITICAL'' = Inr CRITICAL"
  "AnsiColor_getattr [] = Inl AttributeError"
  "AnsiColor_getattr ''Level 5'' = Inl AttributeError"
  "AnsiColor_getattr ''LEVEL 5'' = Inl AttributeError"
  by (simp_all add: AnsiColor_getattr_def AnsiColor_attrs_def other_attr_def)

subsection \<open>Color injection\<close>

text \<open>
  Claim C5, as amended. For every message string, empty or not, with escape sequences in
  it or not, \<^verbatim>\<open>inject(message, color, style, resetLevel)\<close> returns the concatenation of
  reset-all, the code of the color, the code of the style, the message, reset-all and the
  code of the reset level, the codes being the attributes of \<^verbatim>\<open>AnsiColor\<close> that the three
  upper-cased names refer to. So the result opens and closes with a full reset and ends
  with the reset color the caller gave. Nesting: an enclosing injection keeps an inner
  injected string as it is, so the text after the inner reset-all runs under the reset
  color that the caller of the inner injection gave; that is the enclosing color when,
  and only because, the inner injection was given the enclosing color as its reset level.
\<close>

theorem inject_concat:
  assumes "map_of AnsiColor_attrs (upper color) = Some c"
    and "map_of AnsiColor_attrs (upper style) = Some st"
    and "map_of AnsiColor_attrs (upper resetLevel) = Some r"
  shows "inject m color style resetLevel = Inr (RESET_ALL @ c @ st @ m @ RESET_ALL @ r)
    \<and> (\<forall>inner icolor istyle ireset ic ist ir.
          map_of AnsiColor_attrs (upper icolor) = Some ic \<longrightarrow>
          map_of AnsiColor_attrs (upper istyle) = Some ist \<longrightarrow>
          map_of AnsiColor_attrs (upper ireset) = Some ir \<longrightarrow>
          inject inner icolor istyle ireset = Inr (RESET_ALL @ ic @ ist @ inner @ RESET_ALL @ ir) \<and>
          (\<forall>before after.
             inject (before @ (RESET_ALL @ ic @ ist @ inner @ RESET_ALL @ ir) @ after)
               color style resetLevel
             = Inr (RESET_ALL @ c @ st
                    @ before @ (RESET_ALL @ ic @ ist @ inner @ RESET_ALL @ ir) @ after
                    @ RESET_ALL @ r)))"
  using assms by (simp add: inject_def AnsiColor_getattr_def)

theorem inject_concat_witness:
  "inject [] ''red'' ''bold'' ''debug'' = Inr (RESET_ALL @ RED @ BOLD @ [] @ RESET_ALL @ DEBUG)
   \<and> inject ''200:OK'' ''green'' ''normal'' ''red''
       = Inr (RESET_ALL @ GREEN @ NORMAL @ ''200:OK'' @ RESET_ALL @ RED)
   \<and> inject (''a '' @ (RESET_ALL @ GREEN @ NORMAL @ ''200:OK'' @ RESET_ALL @ RED) @ '' b'')
        ''red'' ''bold'' ''debug''
       = Inr (RESET_ALL @ RED @ BOLD
              @ ''a '' @ (RESET_ALL @ GREEN @ NORMAL @ ''200:OK'' @ RESET_ALL @ RED) @ '' b''
              @ RESET_ALL @ DEBUG)
   \<and> inject (''a '' @ (RESET_ALL @ GREEN @ NORMAL @ ''200:OK'' @ RESET_ALL @ DEBUG) @ '' b'')
        ''red'' ''bold'' ''debug''
       = Inr (RESET_ALL @ RED @ BOLD
              @ ''a '' @ (RESET_ALL @ GREEN @ NORMAL @ ''200:OK'' @ RESET_ALL @ DEBUG) @ '' b''
              @ RESET_ALL @ DEBUG)"
proof -
  have 1: "map_of AnsiColor_attrs (upper ''red'') = Some RED"
    by (simp add: upper_names AnsiColor_attrs_def)
  have 2: "map_of AnsiColor_attrs (upper ''bold'') = Some BOLD"
    by (simp add: upper_names AnsiColor_attrs_def)
  have 3: "map_of AnsiColor_attrs (upper ''debug'') = Some DEBUG"
    by (simp add: upper_names AnsiColor_attrs_def)
  have 4: "map_of AnsiColor_attrs (upper ''green'') = Some GREEN"
    by (simp add: upper_names AnsiColor_attrs_def)
  have 5: "map_of AnsiColor_attrs (upper ''normal'') = Some NORMAL"
    by (simp add: upper_names AnsiColor_attrs_def)
  from inject_concat [OF 1 2 3, of "[]"] 1 3 4 5 show ?thesis
    by blast
qed

text \<open>
  Claim C5 as stated fails in its last part. \<^verbatim>\<open>format_args\<close> gives every injection the
  record's level name as reset level; such an injected string, nested in an injection of
  another color, resets to the color of the level: the text after the inner reset-all
  runs under the code of \<^verbatim>\<open>ERROR\<close>, and the blue of the enclosing injection is gone.
\<close>

theorem inject_nested_counterexample:
  "inject ''200:OK'' ''green'' ''bold'' ''ERROR''
     = Inr (RESET_ALL @ GREEN @ BOLD @ ''200:OK'' @ RESET_ALL @ ERROR)
   \<and> inject (''a '' @ (RESET_ALL @ GREEN @ BOLD @ ''200:OK'' @ RESET_ALL @ ERROR) @ '' b'')
        ''blue'' ''normal'' ''ERROR''
       = Inr (RESET_ALL @ BLUE @ NORMAL
              @ ''a '' @ RESET_ALL @ GREEN @ BOLD @ ''200:OK'' @ (RESET_ALL @ ERROR) @ '' b''
              @ RESET_ALL @ ERROR)
   \<and> RESET_ALL @ ERROR \<noteq> RESET_ALL @ BLUE"
  by (simp add: inject_def upper_names getattr_names)
    (simp add: ERROR_def RED_def BLUE_def colorcode_def str_int_codes)

subsection \<open>The registry along a run\<close>

lemma registry_with_empty: "registry_with [] = MSG_ARGS_FORMAT"
  by (simp add: registry_with_def MSG_ARGS_FORMAT_def)

lemma registry_with_status:
  "map_of (registry_with col) ''status'' = Some [(''color'', col), (''style'', ''bold'')]"
  by (simp add: registry_with_def update_conv')

lemma status_color_slot_registry_with:
  "registry s = registry_with col \<Longrightarrow> status_color_slot s = Some col"
  by (simp add: status_color_slot_def registry_with_status)

lemma inject_status_color_registry_with:
  assumes "registry s = registry_with col"
  shows "inject_status_color code s =
     Inr (s\<lparr>registry := registry_with (if code \<in> set STATUS_OK then ''green'' else ''red'')\<rparr>)"
  using assms
  by (simp add: inject_status_color_def registry_with_status) (simp add: registry_with_def)

lemma classify_initial:
  "inject_status_color 200 initial_state
     = Inr (initial_state\<lparr>registry := registry_with ''green''\<rparr>)"
  using inject_status_color_registry_with [of initial_state "[]" 200]
  by (simp add: registry_with_empty initial_state_def STATUS_OK_def)

lemma format_frame:
  assumes "format r s = (res, r', s')"
  shows "registry s' = registry s \<and> emitted s' = emitted s
    \<and> style_fmt s' = (case map_of LOG_LEVEL_FORMAT (levelname r) of
                        Some f \<Rightarrow> f
                      | None \<Rightarrow> default_fmt)"
  using assms by (auto simp: format_def Let_def split: sum.splits)

lemma log_access_unfold:
  "log_access self req resp t s =
     (case inject_status_color (status resp) s of
        Inl e \<Rightarrow> Inl e
      | Inr s1 \<Rightarrow>
          Inr (emit \<lparr>call_level = (if status resp \<in> set STATUS_OK then logger_debug
                                    else logger_error),
                     call_msg = log_format self,
                     call_args = log_args self req resp t,
                     call_registry = registry s1\<rparr> s1))"
  by (simp add: log_access_def logger_call_def split: sum.splits)

text \<open>
  Every reachable registry is the imported one with some text in the status color slot:
  the imported text before a classification, green or red after one.
\<close>

lemma reach_registry:
  assumes "reach b s"
  shows "if b then registry s = registry_with ''green'' \<or> registry s = registry_with ''red''
         else registry s = MSG_ARGS_FORMAT"
  using assms
proof (induction rule: reach.induct)
  case reach_import
  then show ?case by (simp add: initial_state_def)
next
  case (reach_classify b s code s')
  have "\<exists>col. registry s = registry_with col"
    using reach_classify.IH registry_with_empty by (metis (full_types))
  then obtain col where "registry s = registry_with col" ..
  from inject_status_color_registry_with [OF this, of code] reach_classify.hyps(2)
  show ?case by (auto split: if_splits)
next
  case (reach_log b s self req resp t s')
  have "\<exists>col. registry s = registry_with col"
    using reach_log.IH registry_with_empty by (metis (full_types))
  then obtain col where "registry s = registry_with col" ..
  from inject_status_color_registry_with [OF this, of "status resp"] reach_log.hyps(2)
  show ?case by (auto simp: log_access_unfold emit_def split: if_splits)
next
  case (reach_format b s r res r' s')
  then show ?case by (simp add: format_frame)
qed

subsection \<open>Interpolating the level templates\<close>

lemma prepend_prepend: "prepend a (prepend b x) = prepend (a @ b) x"
  by (cases x) simp_all

lemma interpolate_literal:
  "CHR ''%'' \<notin> set pre \<Longrightarrow>
   interpolate Text a (pre @ rest) = prepend pre (interpolate Text a rest)"
proof (induction pre)
  case Nil
  show ?case by (cases "interpolate Text a rest") simp_all
next
  case (Cons c pre)
  then show ?case by (auto simp: prepend_prepend)
qed

lemma interpolate_default_fmt:
  assumes "map_of d ''levelname'' = Some (PyStr l)" and "map_of d ''message'' = Some (PyStr m)"
    and "CHR ''%'' \<notin> set post"
  shows "interpolate Text (DictArgs d) (default_fmt @ post) = Inr (''['' @ l @ ''] '' @ m @ post)"
proof -
  have "interpolate Text (DictArgs d) post = Inr post"
    using interpolate_literal [OF assms(3), of "DictArgs d" "[]"] by simp
  then show ?thesis
    using assms(1,2) by (simp add: default_fmt_def)
qed

lemma codes_no_percent:
  "CHR ''%'' \<notin> set DEBUG" "CHR ''%'' \<notin> set INFO" "CHR ''%'' \<notin> set WARNING"
  "CHR ''%'' \<notin> set ERROR" "CHR ''%'' \<notin> set CRITICAL" "CHR ''%'' \<notin> set RESET_ALL"
  by (simp_all add: DEBUG_def INFO_def WARNING_def ERROR_def CRITICAL_def RESET_ALL_def DIM_def
      YELLOW_def RED_def MAGENTA_def BOLD_def colorcode_def CSI_def str_int_codes)

lemma percent_level_template:
  assumes "map_of d ''levelname'' = Some (PyStr l)" and "map_of d ''message'' = Some (PyStr m)"
  shows "percent (case map_of LOG_LEVEL_FORMAT l of Some f \<Rightarrow> f | None \<Rightarrow> default_fmt)
           (DictArgs d)
         = Inr (final_line l m)"
proof (cases "map_of LOG_LEVEL_FORMAT l")
  case None
  with interpolate_default_fmt [OF assms, of "[]"] show ?thesis
    by (simp add: percent_def final_line_def)
next
  case (Some f)
  note tail = interpolate_default_fmt [OF assms codes_no_percent(6)]
  note evals = percent_def final_line_def interpolate_literal codes_no_percent AnsiColor_attrs_def
  from Some consider "l = ''DEBUG''" "f = DEBUG @ default_fmt @ RESET_ALL"
    | "l = ''INFO''" "f = INFO @ default_fmt @ RESET_ALL"
    | "l = ''WARNING''" "f = WARNING @ default_fmt @ RESET_ALL"
    | "l = ''ERROR''" "f = ERROR @ default_fmt @ RESET_ALL"
    | "l = ''CRITICAL''" "f = CRITICAL @ default_fmt @ RESET_ALL"
    by (auto simp: LOG_LEVEL_FORMAT_def split: if_splits)
  then show ?thesis
  proof cases
    case 1
    with Some tail show ?thesis by (simp add: evals)
  next
    case 2
    with Some tail show ?thesis by (simp add: evals)
  next
    case 3
    with Some tail show ?thesis by (simp add: evals)
  next
    case 4
    with Some tail show ?thesis by (simp add: evals)
  next
    case 5
    with Some tail show ?thesis by (simp add: evals)
  qed
qed

lemma formatMessage_final_line:
  assumes "style_fmt s = (case map_of LOG_LEVEL_FORMAT (levelname r) of
                            Some f \<Rightarrow> f
                          | None \<Rightarrow> default_fmt)"
    and "message r = Some m"
  shows "formatMessage s r = Inr (final_line (levelname r) m)"
  unfolding formatMessage_def assms
  by (rule percent_level_template) simp_all

subsection \<open>The steps of \<^verbatim>\<open>format\<close>\<close>

lemma format_colorize_style_fmt [simp]:
  "format_colorize (s\<lparr>style_fmt := f\<rparr>) r = format_colorize s r"
  by (simp add: format_colorize_def split: record_args.splits)

lemma format_colorize_fields:
  assumes "format_colorize s r = Inr r1"
  shows "r1 = r\<lparr>args := args r1\<rparr>"
  using assms by (auto simp: format_colorize_def split: record_args.splits if_splits sum.splits)

lemma format_exc_cache_fields:
  "format_exc_cache r = r\<lparr>exc_text := exc_text (format_exc_cache r)\<rparr>"
  by (simp add: format_exc_cache_def split: option.splits)

text \<open>What a successful call of \<^verbatim>\<open>format\<close> went through.\<close>

lemma format_Inr:
  assumes "format r s = (Inr line, r', s')"
  obtains r1 m m2 where
    "format_colorize s r = Inr r1" "getMessage r1 = Inr m"
    "format_exc_append (format_exc_cache r1) m = Inr m2"
    "r' = (format_exc_cache r1)
            \<lparr>message := Some (format_stack_append (format_exc_cache r1) m2)\<rparr>"
    "line = final_line (levelname r) (format_stack_append (format_exc_cache r1) m2)"
proof -
  let ?f = "case map_of LOG_LEVEL_FORMAT (levelname r) of Some f \<Rightarrow> f | None \<Rightarrow> default_fmt"
  from assms obtain r1 where 1: "format_colorize s r = Inr r1"
    by (cases "format_colorize s r") (simp_all add: format_def Let_def)
  from assms 1 obtain m where 2: "getMessage r1 = Inr m"
    by (cases "getMessage r1") (simp_all add: format_def Let_def)
  from assms 1 2 obtain m2 where 3: "format_exc_append (format_exc_cache r1) m = Inr m2"
    by (cases "format_exc_append (format_exc_cache r1) m") (simp_all add: format_def Let_def)
  let ?r3 = "(format_exc_cache r1)
               \<lparr>message := Some (format_stack_append (format_exc_cache r1) m2)\<rparr>"
  from assms 1 2 3 have 4: "r' = ?r3"
    and 6: "formatMessage (s\<lparr>style_fmt := ?f\<rparr>) ?r3 = Inr line"
    by (auto simp: format_def Let_def)
  have lv: "levelname ?r3 = levelname r"
    using format_colorize_fields [OF 1] format_exc_cache_fields [of r1]
    by (metis (no_types, lifting) log_record.select_convs(1) log_record.surjective
        log_record.update_convs(3,5,7))
  have "formatMessage (s\<lparr>style_fmt := ?f\<rparr>) ?r3
          = Inr (final_line (levelname ?r3) (format_stack_append (format_exc_cache r1) m2))"
    by (rule formatMessage_final_line) (simp_all add: lv)
  with 6 lv have "line = final_line (levelname r) (format_stack_append (format_exc_cache r1) m2)"
    by simp
  with 1 2 3 4 that show ?thesis by blast
qed

lemma format_status_record_initial:
  "fst (format status_record initial_state) = Inl AttributeError"
  by (simp add: format_def status_record_def initial_state_def format_colorize_def
      format_args_def format_value_def MSG_ARGS_FORMAT_def inject_def upper_names getattr_names)

lemma format_debug_record:
  "format debug_record initial_state
     = (Inr (DEBUG @ ''[DEBUG] ready'' @ RESET_ALL),
        debug_record\<lparr>message := Some ''ready''\<rparr>,
        initial_state\<lparr>style_fmt := DEBUG @ default_fmt @ RESET_ALL\<rparr>)"
  using formatMessage_final_line
    [of "initial_state\<lparr>style_fmt := DEBUG @ default_fmt @ RESET_ALL\<rparr>"
      "debug_record\<lparr>message := Some ''ready''\<rparr>" "''ready''"]
  by (simp add: format_def debug_record_def format_colorize_def getMessage_def
      format_exc_cache_def format_exc_append_def format_stack_append_def LOG_LEVEL_FORMAT_def
      final_line_def AnsiColor_attrs_def)

lemma update_present_keys:
  assumes "map_of al k = Some v"
  shows "map fst (AList.update k w al) = map fst al"
proof -
  from assms have "k \<in> fst ` set al"
    by (metis domI dom_map_of_conv_image_fst)
  then show ?thesis by (simp add: update_keys)
qed

lemma inject_status_color_frame:
  assumes "inject_status_color code s = Inr s'"
  shows "style_fmt s' = style_fmt s" "emitted s' = emitted s"
    "map fst (registry s') = map fst (registry s)"
    "k \<noteq> ''status'' \<Longrightarrow> map_of (registry s') k = map_of (registry s) k"
    "\<exists>c. map_of (registry s) ''status'' = Some c \<and>
       map_of (registry s') ''status''
         = Some (AList.update ''color'' (if code \<in> set STATUS_OK then ''green'' else ''red'') c)"
  using assms
  by (auto simp: inject_status_color_def update_present_keys update_conv' split: option.splits)

subsection \<open>Status classifier and access logger\<close>

text \<open>
  Claim C6, as amended. The status color slot holds the empty string from import until
  the first classification, and \<^verbatim>\<open>"green"\<close> or \<^verbatim>\<open>"red"\<close> at every moment after it.
\<close>

theorem status_color_slot_reach:
  assumes "reach b s"
  shows "if b then status_color_slot s = Some ''green'' \<or> status_color_slot s = Some ''red''
         else status_color_slot s = Some []"
  using reach_registry [OF assms] status_color_slot_registry_with [of s] registry_with_empty
  by (auto split: if_splits)

theorem status_color_slot_reach_witness:
  "reach True (initial_state\<lparr>registry := registry_with ''green''\<rparr>)
   \<and> status_color_slot (initial_state\<lparr>registry := registry_with ''green''\<rparr>) = Some ''green''
   \<and> reach False initial_state \<and> status_color_slot initial_state = Some []"
proof -
  have 1: "reach True (initial_state\<lparr>registry := registry_with ''green''\<rparr>)"
    using reach_classify [OF reach_import classify_initial] .
  from status_color_slot_reach [OF 1] status_color_slot_reach [OF reach_import] 1 reach_import
  show ?thesis
    by (simp add: status_color_slot_registry_with)
qed

text \<open>
  Claim C6 as stated fails in the state after import: the slot holds neither color, and
  formatting a record with a \<^verbatim>\<open>status\<close> argument raises \<^verbatim>\<open>AttributeError\<close>.
\<close>

theorem status_color_slot_initial_counterexample:
  "status_color_slot initial_state \<noteq> Some ''green''
   \<and> status_color_slot initial_state \<noteq> Some ''red''
   \<and> fst (format status_record initial_state) = Inl AttributeError"
  using format_status_record_initial
  by (simp add: status_color_slot_def initial_state_def MSG_ARGS_FORMAT_def)

text \<open>
  Claim C1. In every reachable state, logging a request and response pair sets the status
  color slot (green for 200, 201, 204, red for any other code) and makes exactly one
  logging call; the call is at debug level if and only if the status code is 200, 201 or
  204, and at error level otherwise; and the registry with which the call runs is the one
  in which the slot is already set, so the slot is written before the record is emitted.
\<close>

theorem log_access_emits_once:
  assumes "reach b s"
  shows "\<exists>s1 c. inject_status_color (status resp) s = Inr s1
    \<and> status_color_slot s1 = Some (if status resp \<in> {200, 201, 204} then ''green'' else ''red'')
    \<and> log_access self req resp t s = Inr (emit c s1)
    \<and> emitted (emit c s1) = emitted s @ [c]
    \<and> call_registry c = registry s1
    \<and> (call_level c = logger_debug \<longleftrightarrow> status resp \<in> {200, 201, 204})
    \<and> (call_level c = logger_error \<longleftrightarrow> status resp \<notin> {200, 201, 204})"
proof -
  from reach_registry [OF assms] registry_with_empty
  obtain col where col: "registry s = registry_with col"
    by (metis (full_types))
  let ?new = "if status resp \<in> set STATUS_OK then ''green'' else ''red''"
  let ?s1 = "s\<lparr>registry := registry_with ?new\<rparr>"
  let ?c = "\<lparr>call_level = (if status resp \<in> set STATUS_OK then logger_debug else logger_error),
             call_msg = log_format self, call_args = log_args self req resp t,
             call_registry = registry_with ?new\<rparr>"
  have 1: "inject_status_color (status resp) s = Inr ?s1"
    by (rule inject_status_color_registry_with [OF col])
  have 2: "status_color_slot ?s1 = Some ?new"
    by (rule status_color_slot_registry_with) simp
  have 3: "log_access self req resp t s = Inr (emit ?c ?s1)"
    by (simp add: log_access_unfold 1)
  have 4: "emitted (emit ?c ?s1) = emitted s @ [?c]"
    by (simp add: emit_def)
  have 5: "set STATUS_OK = {200, 201, 204}"
    by (simp add: STATUS_OK_def)
  show ?thesis
    apply (rule exI [of _ ?s1], rule exI [of _ ?c])
    using 1 2 3 4 by (simp add: 5)
qed

subsection \<open>What the operations write\<close>

text \<open>
  Claim C9, as amended. Classifying a status writes the status color slot and nothing
  else: the formatter's template, the logger, the keys of the registry, every other entry
  of the registry and every other field of the status entry stay as they were. Formatting
  a record leaves the registry and the logger as they were, but overwrites the formatter's
  own style template with the template chosen for the record's level name. (The color
  codec and the table of level templates are constants of the model, as nothing in the
  source assigns to them.)
\<close>

theorem only_status_slot_and_template_written:
  "(inject_status_color code s = Inr s' \<longrightarrow>
      style_fmt s' = style_fmt s \<and> emitted s' = emitted s
      \<and> map fst (registry s') = map fst (registry s)
      \<and> (\<forall>k. k \<noteq> ''status'' \<longrightarrow> map_of (registry s') k = map_of (registry s) k)
      \<and> (\<exists>c c'. map_of (registry s) ''status'' = Some c
            \<and> map_of (registry s') ''status'' = Some c'
            \<and> (\<forall>f. f \<noteq> ''color'' \<longrightarrow> map_of c' f = map_of c f)))
   \<and> (format r s = (res, r', t') \<longrightarrow>
      registry t' = registry s \<and> emitted t' = emitted s
      \<and> style_fmt t' = (case map_of LOG_LEVEL_FORMAT (levelname r) of
                          Some f \<Rightarrow> f
                        | None \<Rightarrow> default_fmt))"
proof (intro conjI impI)
  assume a: "inject_status_color code s = Inr s'"
  from inject_status_color_frame(5) [OF a] obtain c where
    c: "map_of (registry s) ''status'' = Some c"
       "map_of (registry s') ''status''
         = Some (AList.update ''color'' (if code \<in> set STATUS_OK then ''green'' else ''red'') c)"
    by blast
  show "\<exists>c c'. map_of (registry s) ''status'' = Some c
            \<and> map_of (registry s') ''status'' = Some c'
            \<and> (\<forall>f. f \<noteq> ''color'' \<longrightarrow> map_of c' f = map_of c f)"
    using c by (simp add: update_conv')
qed (simp_all add: inject_status_color_frame format_frame)

theorem only_status_slot_and_template_written_witness:
  "inject_status_color 200 initial_state
     = Inr (initial_state\<lparr>registry := registry_with ''green''\<rparr>)
   \<and> style_fmt (initial_state\<lparr>registry := registry_with ''green''\<rparr>) = style_fmt initial_state
   \<and> map_of (registry (initial_state\<lparr>registry := registry_with ''green''\<rparr>)) ''url''
       = map_of (registry initial_state) ''url''
   \<and> registry (initial_state\<lparr>style_fmt := DEBUG @ default_fmt @ RESET_ALL\<rparr>)
       = registry initial_state
   \<and> style_fmt (initial_state\<lparr>style_fmt := DEBUG @ default_fmt @ RESET_ALL\<rparr>)
       = (case map_of LOG_LEVEL_FORMAT (levelname debug_record) of
            Some f \<Rightarrow> f
          | None \<Rightarrow> default_fmt)"
  using only_status_slot_and_template_written [of 200 initial_state
      "initial_state\<lparr>registry := registry_with ''green''\<rparr>" debug_record
      "Inr (DEBUG @ ''[DEBUG] ready'' @ RESET_ALL)" "debug_record\<lparr>message := Some ''ready''\<rparr>"
      "initial_state\<lparr>style_fmt := DEBUG @ default_fmt @ RESET_ALL\<rparr>"]
    classify_initial format_debug_record
  by simp

text \<open>
  Claim C9 as stated fails on the formatter's own state: formatting one debug record in
  the state after import replaces the formatter's template \<^verbatim>\<open>"%(message)s"\<close> by the debug
  template.
\<close>

theorem format_writes_formatter_counterexample:
  "style_fmt (snd (snd (format debug_record initial_state))) = DEBUG @ default_fmt @ RESET_ALL
   \<and> style_fmt initial_state = ''%(message)s''
   \<and> style_fmt (snd (snd (format debug_record initial_state))) \<noteq> style_fmt initial_state"
  by (simp add: format_debug_record)
    (simp add: initial_state_def default_fmt_def DEBUG_def DIM_def colorcode_def CSI_def)

subsection \<open>The scenarios of the access log\<close>

lemma py_round_scenarios: "py_round (123 / 10) = 12" "py_round 1200 = 1200"
proof -
  have "\<lfloor>123 / 10 :: rat\<rfloor> = 12"
    by (rule floor_unique) simp_all
  then show "py_round (123 / 10) = 12"
    by (simp add: py_round_def Let_def)
  show "py_round 1200 = 1200"
    by (simp add: py_round_def Let_def)
qed

lemma str_int_scenarios:
  "str_int 12 = ''12''" "str_int 200 = ''200''" "str_int 500 = ''500''" "str_int 1200 = ''1200''"
  by (simp_all add: str_int_def str_nat.simps digit_char_def)

lemma log_args_get:
  "log_args bot_logger get_request ok_response (123 / 10000) =
     [(''logger'', PyStr ''bot''), (''method'', PyStr ''GET''), (''path'', PyStr ''/webhook''),
      (''version'', PyStr ''HTTP/1.1''), (''status'', PyStr ''200:OK''), (''time'', PyStr ''12ms'')]"
  by (simp add: log_args_def bot_logger_def get_request_def ok_response_def py_round_scenarios
      str_int_scenarios str_int_codes upper_names)

lemma log_args_post:
  "log_args bot_logger post_request error_response (12 / 10) =
     [(''logger'', PyStr ''bot''), (''method'', PyStr ''POST''), (''path'', PyStr ''/hook?x=1''),
      (''version'', PyStr ''HTTP/1.1''), (''status'', PyStr ''500:Internal Server Error''),
      (''time'', PyStr ''1200ms'')]"
  by (simp add: log_args_def bot_logger_def post_request_def error_response_def py_round_scenarios
      str_int_scenarios str_int_codes upper_names)

lemma getMessage_get:
  "getMessage (makeRecord \<lparr>call_level = lv, call_msg = LOG_FORMAT,
      call_args = log_args bot_logger get_request ok_response (123 / 10000),
      call_registry = rg\<rparr>)
   = Inr ''bot \"GET /webhook HTTP/1.1\" => 200:OK 12ms''"
  unfolding log_args_get by (simp add: getMessage_def makeRecord_def percent_def LOG_FORMAT_def)

lemma getMessage_post:
  "getMessage (makeRecord \<lparr>call_level = lv, call_msg = LOG_FORMAT,
      call_args = log_args bot_logger post_request error_response (12 / 10),
      call_registry = rg\<rparr>)
   = Inr ''bot \"POST /hook?x=1 HTTP/1.1\" => 500:Internal Server Error 1200ms''"
  unfolding log_args_post by (simp add: getMessage_def makeRecord_def percent_def LOG_FORMAT_def)

text \<open>
  Claim C7. In every reachable state, the logger named \<^verbatim>\<open>bot\<close> makes, for a GET of
  \<^verbatim>\<open>/webhook\<close> over HTTP/1.1 answered 200 OK in 0.0123 s, one debug call whose message is
  \<^verbatim>\<open>bot "GET /webhook HTTP/1.1" => 200:OK 12ms\<close>, and for a POST of \<^verbatim>\<open>/hook?x=1\<close> answered
  500 Internal Server Error in 1.2 s, one error call whose message is
  \<^verbatim>\<open>bot "POST /hook?x=1 HTTP/1.1" => 500:Internal Server Error 1200ms\<close>.
\<close>

theorem scenario_messages:
  assumes "reach b s"
  shows "(\<exists>c s1. log_access bot_logger get_request ok_response (123 / 10000) s = Inr (emit c s1)
            \<and> emitted (emit c s1) = emitted s @ [c] \<and> call_level c = logger_debug
            \<and> getMessage (makeRecord c) = Inr ''bot \"GET /webhook HTTP/1.1\" => 200:OK 12ms'')
    \<and> (\<exists>c s1. log_access bot_logger post_request error_response (12 / 10) s = Inr (emit c s1)
            \<and> emitted (emit c s1) = emitted s @ [c] \<and> call_level c = logger_error
            \<and> getMessage (makeRecord c)
                = Inr ''bot \"POST /hook?x=1 HTTP/1.1\" => 500:Internal Server Error 1200ms'')"
proof -
  from reach_registry [OF assms] registry_with_empty
  obtain col where col: "registry s = registry_with col"
    by (metis (full_types))
  note classify = inject_status_color_registry_with [OF col]
  let ?a = "\<lparr>call_level = logger_debug, call_msg = LOG_FORMAT,
             call_args = log_args bot_logger get_request ok_response (123 / 10000),
             call_registry = registry_with ''green''\<rparr>"
  let ?b = "\<lparr>call_level = logger_error, call_msg = LOG_FORMAT,
             call_args = log_args bot_logger post_request error_response (12 / 10),
             call_registry = registry_with ''red''\<rparr>"
  have a: "log_access bot_logger get_request ok_response (123 / 10000) s
             = Inr (emit ?a (s\<lparr>registry := registry_with ''green''\<rparr>))"
    unfolding log_access_unfold classify
    by (simp add: ok_response_def bot_logger_def STATUS_OK_def)
  have b: "log_access bot_logger post_request error_response (12 / 10) s
             = Inr (emit ?b (s\<lparr>registry := registry_with ''red''\<rparr>))"
    unfolding log_access_unfold classify
    by (simp add: error_response_def bot_logger_def STATUS_OK_def)
  have "\<exists>c s1. log_access bot_logger get_request ok_response (123 / 10000) s = Inr (emit c s1)
            \<and> emitted (emit c s1) = emitted s @ [c] \<and> call_level c = logger_debug
            \<and> getMessage (makeRecord c) = Inr ''bot \"GET /webhook HTTP/1.1\" => 200:OK 12ms''"
    apply (rule exI [of _ ?a], rule exI [of _ "s\<lparr>registry := registry_with ''green''\<rparr>"])
    unfolding getMessage_get a by (simp add: emit_def)
  moreover
  have "\<exists>c s1. log_access bot_logger post_request error_response (12 / 10) s = Inr (emit c s1)
            \<and> emitted (emit c s1) = emitted s @ [c] \<and> call_level c = logger_error
            \<and> getMessage (makeRecord c)
                = Inr ''bot \"POST /hook?x=1 HTTP/1.1\" => 500:Internal Server Error 1200ms''"
    apply (rule exI [of _ ?b], rule exI [of _ "s\<lparr>registry := registry_with ''red''\<rparr>"])
    unfolding getMessage_post b by (simp add: emit_def)
  ultimately show ?thesis by blast
qed

theorem scenario_messages_witness:
  "reach False initial_state
   \<and> (\<exists>c s1. log_access bot_logger get_request ok_response (123 / 10000) initial_state
              = Inr (emit c s1)
            \<and> emitted (emit c s1) = emitted initial_state @ [c] \<and> call_level c = logger_debug
            \<and> getMessage (makeRecord c) = Inr ''bot \"GET /webhook HTTP/1.1\" => 200:OK 12ms'')"
  using scenario_messages [OF reach_import] reach_import by blast

theorem log_access_emits_once_witness:
  "reach False initial_state
   \<and> (\<exists>s1 c. inject_status_color 200 initial_state = Inr s1
          \<and> status_color_slot s1 = Some ''green''
          \<and> log_access bot_logger get_request ok_response (123 / 10000) initial_state
              = Inr (emit c s1)
          \<and> emitted (emit c s1) = [c]
          \<and> call_registry c = registry s1
          \<and> call_level c = logger_debug)"
  using log_access_emits_once [OF reach_import, of ok_response bot_logger get_request "123 / 10000"]
    reach_import
  by (simp add: ok_response_def initial_state_def) blast

subsection \<open>Argument formatter\<close>

lemma update_absent:
  "k \<notin> fst ` set al \<Longrightarrow> AList.update k v al = al @ [(k, v)]"
  by (induction al) auto

lemma format_args_loop_Inr:
  assumes "format_args_loop reg level acc items = Inr out"
    and "distinct (map fst items)" and "fst ` set items \<inter> fst ` set acc = {}"
  shows "\<exists>new. out = acc @ new \<and> list_all2 (item_formatted reg level) items new"
  using assms
proof (induction items arbitrary: acc)
  case Nil
  then show ?case by simp
next
  case (Cons a items)
  obtain k v where a: "a = (k, v)" by (cases a)
  from Cons.prems(1) a obtain x where x: "format_value reg level k v = Inr x"
    and loop: "format_args_loop reg level (AList.update k x acc) items = Inr out"
    by (auto split: sum.splits)
  from Cons.prems(3) a have upd: "AList.update k x acc = acc @ [(k, x)]"
    by (intro update_absent) auto
  from Cons.prems(2,3) a have "fst ` set items \<inter> fst ` set (acc @ [(k, x)]) = {}"
    by auto
  with Cons.IH [of "acc @ [(k, x)]"] loop upd Cons.prems(2)
  obtain new where "out = (acc @ [(k, x)]) @ new" "list_all2 (item_formatted reg level) items new"
    by auto
  moreover have "item_formatted reg level a (k, x)"
    using a x by (simp add: item_formatted_def)
  ultimately show ?case
    by (intro exI [of _ "(k, x) # new"]) simp
qed

lemma format_args_loop_succeeds:
  assumes "\<forall>a \<in> set items. \<exists>x. format_value reg level (fst a) (snd a) = Inr x"
  shows "\<exists>out. format_args_loop reg level acc items = Inr out"
  using assms
proof (induction items arbitrary: acc)
  case Nil
  then show ?case by simp
next
  case (Cons a items)
  obtain k v where a: "a = (k, v)" by (cases a)
  with Cons.prems obtain x where "format_value reg level k v = Inr x" by auto
  with Cons a show ?case by simp
qed

lemma list_all2_item_lookup:
  assumes "list_all2 (item_formatted reg level) items new" and "distinct (map fst items)"
    and "(k, v) \<in> set items"
  shows "\<exists>x. map_of new k = Some x \<and> format_value reg level k v = Inr x"
  using assms
proof (induction rule: list_all2_induct)
  case Nil
  then show ?case by simp
next
  case (Cons a items b new)
  then show ?case
    by (cases a; cases b) (auto simp: item_formatted_def rev_image_eqI)
qed

lemma list_all2_item_keys:
  "list_all2 (item_formatted reg level) items new \<Longrightarrow> map fst new = map fst items"
  by (induction rule: list_all2_induct) (simp_all add: item_formatted_def)

lemma format_value_Inr:
  assumes "format_value reg level k v = Inr x"
  shows "case map_of reg k of
           None \<Rightarrow> x = v
         | Some c \<Rightarrow>
             (\<exists>color y. map_of c ''color'' = Some color
                \<and> inject (str v) color
                     (case map_of c ''style'' of None \<Rightarrow> ''normal'' | Some st \<Rightarrow> st) level = Inr y
                \<and> x = PyStr y)"
  using assms by (auto simp: format_value_def Let_def split: option.splits sum.splits)

lemma registry_with_entries:
  assumes "map_of (registry_with col) k = Some c"
  shows "(k, c) \<in> set
     [(''event'', [(''color'', ''green'')]),
      (''ratelimit'', [(''color'', ''white''), (''style'', ''bold'')]),
      (''time_remaining'', [(''color'', ''white''), (''style'', ''bold'')]),
      (''url'', [(''color'', ''blue''), (''style'', ''underline'')]),
      (''file'', [(''color'', ''yellow'')]),
      (''request'', [(''color'', ''yellow'')]),
      (''time'', [(''color'', ''yellow'')]),
      (''status'', [(''color'', col), (''style'', ''bold'')]),
      (''method'', [(''color'', ''magenta''), (''style'', ''bold'')]),
      (''path'', [(''color'', ''blue'')]),
      (''data'', [(''color'', ''yellow'')]),
      (''version'', [(''color'', ''yellow'')])]"
proof -
  have "registry_with col =
     [(''event'', [(''color'', ''green'')]),
      (''ratelimit'', [(''color'', ''white''), (''style'', ''bold'')]),
      (''time_remaining'', [(''color'', ''white''), (''style'', ''bold'')]),
      (''url'', [(''color'', ''blue''), (''style'', ''underline'')]),
      (''file'', [(''color'', ''yellow'')]),
      (''request'', [(''color'', ''yellow'')]),
      (''time'', [(''color'', ''yellow'')]),
      (''status'', [(''color'', col), (''style'', ''bold'')]),
      (''method'', [(''color'', ''magenta''), (''style'', ''bold'')]),
      (''path'', [(''color'', ''blue'')]),
      (''data'', [(''color'', ''yellow'')]),
      (''version'', [(''color'', ''yellow'')])]"
    by (simp add: registry_with_def MSG_ARGS_FORMAT_def)
  with map_of_SomeD [OF assms] show ?thesis by simp
qed

lemma format_value_succeeds:
  assumes "col = ''green'' \<or> col = ''red'' \<or> k \<noteq> ''status''"
    and "map_of AnsiColor_attrs (upper level) = Some lc"
  shows "\<exists>x. format_value (registry_with col) level k v = Inr x"
proof (cases "map_of (registry_with col) k")
  case None
  then show ?thesis by (simp add: format_value_def)
next
  case (Some c)
  have lv: "AnsiColor_getattr (upper level) = Inr lc"
    using assms(2) by (simp add: AnsiColor_getattr_def)
  from registry_with_entries [OF Some] assms(1) show ?thesis
    unfolding format_value_def Some
    by (auto simp: inject_def upper_names getattr_names lv)
qed

text \<open>
  Claim C4, as amended. For every input mapping (a dictionary, so with distinct keys) and
  every level string that, upper-cased, names an attribute of the color codec, in every
  reachable state in which a status has been classified or for a mapping without a
  \<^verbatim>\<open>status\<close> key, \<^verbatim>\<open>format_args\<close> returns a mapping with the same keys in the same order, in
  which the value of each key of the registry is
  \<^verbatim>\<open>inject(str(value), color, style or "normal", level)\<close> and the value of every other key is
  the input's. The input is a value of the model, which the function only reads. Level
  strings that name no attribute are left out of the statement: what happens for them is
  the missing fallback on the level name of claim C3.
\<close>

theorem format_args_returns:
  assumes "distinct (map fst d)"
    and "reach b s" and "b \<or> ''status'' \<notin> fst ` set d"
    and "map_of AnsiColor_attrs (upper level) = Some lc"
  shows "\<exists>out. format_args (registry s) d level = Inr out
     \<and> map fst out = map fst d
     \<and> (\<forall>k v. (k, v) \<in> set d \<longrightarrow>
          (case map_of (registry s) k of
             None \<Rightarrow> map_of out k = Some v
           | Some c \<Rightarrow>
               (\<exists>color y. map_of c ''color'' = Some color
                  \<and> inject (str v) color
                       (case map_of c ''style'' of None \<Rightarrow> ''normal'' | Some st \<Rightarrow> st) level
                     = Inr y
                  \<and> map_of out k = Some (PyStr y))))"
proof -
  have "\<exists>col. registry s = registry_with col \<and> (b \<longrightarrow> col = ''green'' \<or> col = ''red'')"
    using reach_registry [OF assms(2)] registry_with_empty by (metis (full_types))
  then obtain col where col: "registry s = registry_with col"
    and cases: "b \<longrightarrow> col = ''green'' \<or> col = ''red''"
    by blast
  have each: "\<forall>a \<in> set d. \<exists>x. format_value (registry s) level (fst a) (snd a) = Inr x"
  proof
    fix a assume "a \<in> set d"
    then have "fst a \<in> fst ` set d"
      by (rule imageI)
    with assms(3) cases have "col = ''green'' \<or> col = ''red'' \<or> fst a \<noteq> ''status''"
      by metis
    from format_value_succeeds [OF this assms(4)] col
    show "\<exists>x. format_value (registry s) level (fst a) (snd a) = Inr x"
      by simp
  qed
  from format_args_loop_succeeds [OF each, of "[]"]
  obtain out where out: "format_args (registry s) d level = Inr out"
    by (auto simp: format_args_def)
  with format_args_loop_Inr [of "registry s" level "[]" d out] assms(1)
  have all2: "list_all2 (item_formatted (registry s) level) d out"
    by (auto simp: format_args_def)
  have look: "case map_of (registry s) k of
             None \<Rightarrow> map_of out k = Some v
           | Some c \<Rightarrow>
               (\<exists>color y. map_of c ''color'' = Some color
                  \<and> inject (str v) color
                       (case map_of c ''style'' of None \<Rightarrow> ''normal'' | Some st \<Rightarrow> st) level
                     = Inr y
                  \<and> map_of out k = Some (PyStr y))" if "(k, v) \<in> set d" for k v
  proof -
    from list_all2_item_lookup [OF all2 assms(1) that]
    obtain x where x: "map_of out k = Some x" "format_value (registry s) level k v = Inr x"
      by blast
    from format_value_Inr [OF x(2)] x(1) show ?thesis
      by (auto split: option.splits)
  qed
  from out list_all2_item_keys [OF all2] look show ?thesis
    by blast
qed

text \<open>
  Claim C4 as stated fails before the first classification: the registry's color for
  \<^verbatim>\<open>status\<close> is still the empty string of the import, which names no attribute, so
  for a mapping with a \<^verbatim>\<open>status\<close> key and the level \<^verbatim>\<open>INFO\<close> the injection raises
  \<^verbatim>\<open>AttributeError\<close> and no mapping is returned.
\<close>

theorem format_args_status_counterexample:
  "format_args (registry initial_state) [(''status'', PyStr ''200:OK'')] ''INFO''
     = Inl AttributeError"
  by (simp add: format_args_def format_value_def initial_state_def MSG_ARGS_FORMAT_def inject_def
      upper_names getattr_names)

theorem format_args_returns_witness:
  "distinct (map fst [(''url'', PyStr ''x''), (''n'', PyInt 5)])
   \<and> reach False initial_state
   \<and> (\<exists>out. format_args (registry initial_state) [(''url'', PyStr ''x''), (''n'', PyInt 5)] ''ERROR''
               = Inr out
          \<and> map fst out = [''url'', ''n'']
          \<and> map_of out ''n'' = Some (PyInt 5)
          \<and> map_of out ''url'' = Some (PyStr (RESET_ALL @ BLUE @ UNDERLINE @ ''x'' @ RESET_ALL @ ERROR)))"
proof -
  have 1: "distinct (map fst [(''url'', PyStr ''x''), (''n'', PyInt 5)])"
    by simp
  have 2: "False \<or> ''status'' \<notin> fst ` set [(''url'', PyStr ''x''), (''n'', PyInt 5)]"
    by simp
  have 3: "map_of AnsiColor_attrs (upper ''ERROR'') = Some ERROR"
    by (simp add: upper_names AnsiColor_attrs_def)
  have 4: "map_of (registry initial_state) ''n'' = None"
    "map_of (registry initial_state) ''url'' = Some [(''color'', ''blue''), (''style'', ''underline'')]"
    by (simp_all add: initial_state_def MSG_ARGS_FORMAT_def)
  have 5: "inject ''x'' ''blue'' ''underline'' ''ERROR''
             = Inr (RESET_ALL @ BLUE @ UNDERLINE @ ''x'' @ RESET_ALL @ ERROR)"
    by (simp add: inject_def upper_names getattr_names)
  from format_args_returns [OF 1 reach_import 2 3]
  obtain out where out:
    "format_args (registry initial_state) [(''url'', PyStr ''x''), (''n'', PyInt 5)] ''ERROR''
       = Inr out"
    "map fst out = map fst [(''url'', PyStr ''x''), (''n'', PyInt 5)]"
    "\<forall>k v. (k, v) \<in> set [(''url'', PyStr ''x''), (''n'', PyInt 5)] \<longrightarrow>
          (case map_of (registry initial_state) k of
             None \<Rightarrow> map_of out k = Some v
           | Some c \<Rightarrow>
               (\<exists>color y. map_of c ''color'' = Some color
                  \<and> inject (str v) color
                       (case map_of c ''style'' of None \<Rightarrow> ''normal'' | Some st \<Rightarrow> st) ''ERROR''
                     = Inr y
                  \<and> map_of out k = Some (PyStr y)))"
    by blast
  from out(3) [rule_format, of "''n''" "PyInt 5"] 4 have n: "map_of out ''n'' = Some (PyInt 5)"
    by simp
  from out(3) [rule_format, of "''url''" "PyStr ''x''"] 4 5
  have u: "map_of out ''url'' = Some (PyStr (RESET_ALL @ BLUE @ UNDERLINE @ ''x'' @ RESET_ALL @ ERROR))"
    by simp
  from out(1,2) n u 1 reach_import show ?thesis
    by simp
qed

subsection \<open>Formatting without payloads, and level names outside the table\<close>

lemma format_payload_free:
  assumes "exc_info r = None" "\<not> truthy_text (exc_text r)" "\<not> truthy_text (stack_info r)"
  shows "fst (format r s) =
     (case format_colorize s r of
        Inl e \<Rightarrow> Inl e
      | Inr r1 \<Rightarrow>
          (case getMessage r1 of
             Inl e \<Rightarrow> Inl e
           | Inr m \<Rightarrow> Inr (final_line (levelname r) m)))"
proof (cases "format_colorize s r")
  case (Inl e)
  then show ?thesis by (simp add: format_def Let_def)
next
  case (Inr r1)
  note r1 = format_colorize_fields [OF Inr]
  have f: "exc_info r1 = None" "\<not> truthy_text (exc_text r1)" "\<not> truthy_text (stack_info r1)"
    "levelname r1 = levelname r"
    using assms by (subst r1, simp)+
  have cache: "format_exc_cache r1 = r1"
    using f by (simp add: format_exc_cache_def)
  show ?thesis
  proof (cases "getMessage r1")
    case (Inl e)
    with Inr show ?thesis by (simp add: format_def Let_def)
  next
    case m: (Inr m)
    let ?f = "case map_of LOG_LEVEL_FORMAT (levelname r) of Some f \<Rightarrow> f | None \<Rightarrow> default_fmt"
    have "formatMessage (s\<lparr>style_fmt := ?f\<rparr>) (r1\<lparr>message := Some m\<rparr>)
            = Inr (final_line (levelname (r1\<lparr>message := Some m\<rparr>)) m)"
      by (rule formatMessage_final_line) (simp_all add: f)
    with Inr m f show ?thesis
      by (simp add: format_def Let_def cache format_exc_append_def format_stack_append_def)
  qed
qed

lemma recognized_level_attr:
  assumes "l \<in> fst ` set LOG_LEVEL_FORMAT"
  shows "\<exists>lc. map_of AnsiColor_attrs (upper l) = Some lc"
proof -
  from assms have "l = ''DEBUG'' \<or> l = ''INFO'' \<or> l = ''WARNING'' \<or> l = ''ERROR''
      \<or> l = ''CRITICAL''"
    by (auto simp: LOG_LEVEL_FORMAT_def)
  then show ?thesis
    by (elim disjE) (simp_all add: upper_names AnsiColor_attrs_def)
qed

lemma format_colorize_succeeds:
  assumes "reach True s" and "levelname r \<in> fst ` set LOG_LEVEL_FORMAT"
  shows "\<exists>r1. format_colorize s r = Inr r1"
proof -
  from reach_registry [OF assms(1)]
  obtain col where col: "registry s = registry_with col" "col = ''green'' \<or> col = ''red''"
    by auto
  from recognized_level_attr [OF assms(2)]
  obtain lc where lc: "map_of AnsiColor_attrs (upper (levelname r)) = Some lc" ..
  have fa: "\<exists>out. format_args (registry s) d (levelname r) = Inr out" for d
    unfolding format_args_def col(1)
    by (rule format_args_loop_succeeds) (use col(2) lc format_value_succeeds in blast)
  show ?thesis
  proof (cases "args r")
    case (TupleArgs vs)
    then show ?thesis by (simp add: format_colorize_def)
  next
    case (DictArgs d)
    from fa [of d] obtain out where "format_args (registry s) d (levelname r) = Inr out" ..
    with DictArgs show ?thesis by (simp add: format_colorize_def)
  qed
qed

text \<open>
  Claim C8, as amended. For every log record that carries neither an exception payload nor
  a stack payload, the exception and stack steps are skipped: formatting fails exactly
  when colorizing the arguments or interpolating the message fails, and otherwise returns
  the level's line around the interpolated message. It never fails for a record without
  arguments; and for a record with one of the five level names of \<^verbatim>\<open>LOG_LEVEL_FORMAT\<close>,
  formatted after a status has been classified, colorizing the arguments never fails.
\<close>

theorem format_without_payloads:
  assumes "exc_info r = None" "\<not> truthy_text (exc_text r)" "\<not> truthy_text (stack_info r)"
  shows "fst (format r s) =
     (case format_colorize s r of
        Inl e \<Rightarrow> Inl e
      | Inr r1 \<Rightarrow>
          (case getMessage r1 of
             Inl e \<Rightarrow> Inl e
           | Inr m \<Rightarrow> Inr (final_line (levelname r) m)))
   \<and> (args r = TupleArgs [] \<longrightarrow> fst (format r s) = Inr (final_line (levelname r) (msg r)))
   \<and> (reach True s \<and> levelname r \<in> fst ` set LOG_LEVEL_FORMAT \<longrightarrow>
        (\<exists>r1. format_colorize s r = Inr r1))"
proof (intro conjI impI)
  show "fst (format r s) =
     (case format_colorize s r of
        Inl e \<Rightarrow> Inl e
      | Inr r1 \<Rightarrow>
          (case getMessage r1 of
             Inl e \<Rightarrow> Inl e
           | Inr m \<Rightarrow> Inr (final_line (levelname r) m)))"
    by (rule format_payload_free [OF assms])
next
  assume "args r = TupleArgs []"
  then show "fst (format r s) = Inr (final_line (levelname r) (msg r))"
    by (simp add: format_payload_free [OF assms] format_colorize_def getMessage_def)
next
  assume "reach True s \<and> levelname r \<in> fst ` set LOG_LEVEL_FORMAT"
  then show "\<exists>r1. format_colorize s r = Inr r1"
    using format_colorize_succeeds by blast
qed

theorem format_without_payloads_witness:
  "exc_info debug_record = None \<and> \<not> truthy_text (exc_text debug_record)
   \<and> \<not> truthy_text (stack_info debug_record)
   \<and> fst (format debug_record initial_state) = Inr (final_line ''DEBUG'' ''ready'')
   \<and> final_line ''DEBUG'' ''ready'' = DEBUG @ ''[DEBUG] ready'' @ RESET_ALL"
proof -
  have 1: "exc_info debug_record = None" and 2: "\<not> truthy_text (exc_text debug_record)"
    and 3: "\<not> truthy_text (stack_info debug_record)"
    by (simp_all add: debug_record_def)
  have 4: "args debug_record = TupleArgs []" "levelname debug_record = ''DEBUG''"
    "msg debug_record = ''ready''"
    by (simp_all add: debug_record_def)
  have 5: "final_line ''DEBUG'' ''ready'' = DEBUG @ ''[DEBUG] ready'' @ RESET_ALL"
    by (simp add: final_line_def LOG_LEVEL_FORMAT_def AnsiColor_attrs_def)
  from format_without_payloads [OF 1 2 3, of initial_state, THEN conjunct2, THEN conjunct1]
    1 2 3 4 5 show ?thesis
    by simp
qed

text \<open>
  Claim C8 as stated fails: a record without payloads that carries a \<^verbatim>\<open>status\<close> argument,
  formatted before any status was classified, raises \<^verbatim>\<open>AttributeError\<close>.
\<close>

theorem format_without_payloads_counterexample:
  "exc_info status_record = None \<and> \<not> truthy_text (exc_text status_record)
   \<and> \<not> truthy_text (stack_info status_record)
   \<and> fst (format status_record initial_state) = Inl AttributeError"
  using format_status_record_initial by (simp add: status_record_def)

text \<open>
  Claim C3 (every record with a level name outside the five recognized ones is formatted
  with the plain default template and no error, whatever payloads it carries) against the
  code: \<^verbatim>\<open>"Level 5"\<close> is not a key of \<^verbatim>\<open>LOG_LEVEL_FORMAT\<close>, and the record with an exception
  payload raises \<^verbatim>\<open>AttributeError\<close>, while the same record without the payload is formatted
  with the default template.
\<close>

theorem format_level5_raises:
  "map_of LOG_LEVEL_FORMAT (levelname level5_record) = None
   \<and> fst (format level5_record initial_state) = Inl AttributeError
   \<and> fst (format (level5_record\<lparr>exc_info := None\<rparr>) initial_state) = Inr ''[Level 5] boom''"
proof -
  have 1: "map_of LOG_LEVEL_FORMAT (levelname level5_record) = None"
    by (simp add: level5_record_def LOG_LEVEL_FORMAT_def)
  have 2: "fst (format level5_record initial_state) = Inl AttributeError"
    by (simp add: format_def level5_record_def format_colorize_def getMessage_def
        format_exc_cache_def format_exc_append_def getattr_names)
  have "fst (format (level5_record\<lparr>exc_info := None\<rparr>) initial_state)
          = Inr (final_line ''Level 5'' ''boom'')"
    using format_payload_free [of "level5_record\<lparr>exc_info := None\<rparr>" initial_state]
    by (simp add: level5_record_def format_colorize_def getMessage_def)
  then have 3: "fst (format (level5_record\<lparr>exc_info := None\<rparr>) initial_state)
                  = Inr ''[Level 5] boom''"
    by (simp add: final_line_def LOG_LEVEL_FORMAT_def)
  from 1 2 3 show ?thesis by blast
qed

subsection \<open>Exception text and the mutation of the record\<close>

lemmas code_chars = RESET_ALL_def BLUE_def UNDERLINE_def INFO_def DIM_def RED_def ERROR_def
  colorcode_def CSI_def str_int_codes

lemma format_url_record:
  "format url_record initial_state =
     (Inr (INFO @ ''[INFO] GET '' @ (RESET_ALL @ BLUE @ UNDERLINE @ ''u'' @ RESET_ALL @ INFO)
            @ [newline] @ INFO @ ''KeyError'' @ RESET_ALL),
      url_record
        \<lparr>args := DictArgs
                   [(''url'', PyStr (RESET_ALL @ BLUE @ UNDERLINE @ ''u'' @ RESET_ALL @ INFO))],
         exc_text := Some ''KeyError'',
         message := Some (''GET '' @ (RESET_ALL @ BLUE @ UNDERLINE @ ''u'' @ RESET_ALL @ INFO)
                          @ [newline] @ INFO @ ''KeyError'')\<rparr>,
      initial_state\<lparr>style_fmt := INFO @ default_fmt @ RESET_ALL\<rparr>)"
  by (simp add: format_def url_record_def initial_state_def format_colorize_def format_args_def
      format_value_def MSG_ARGS_FORMAT_def inject_def upper_names getattr_names getMessage_def
      percent_def format_exc_cache_def format_exc_append_def format_stack_append_def
      formatMessage_def LOG_LEVEL_FORMAT_def default_fmt_def end_line_def recolor_def newline_def
      code_chars)

lemma format_url_record_again:
  "format
     (url_record
        \<lparr>args := DictArgs
                   [(''url'', PyStr (RESET_ALL @ BLUE @ UNDERLINE @ ''u'' @ RESET_ALL @ INFO))],
         exc_text := Some ''KeyError'',
         message := Some (''GET '' @ (RESET_ALL @ BLUE @ UNDERLINE @ ''u'' @ RESET_ALL @ INFO)
                          @ [newline] @ INFO @ ''KeyError'')\<rparr>)
     (initial_state\<lparr>style_fmt := INFO @ default_fmt @ RESET_ALL\<rparr>) =
     (Inr (INFO @ ''[INFO] GET ''
            @ (RESET_ALL @ BLUE @ UNDERLINE
               @ (RESET_ALL @ BLUE @ UNDERLINE @ ''u'' @ RESET_ALL @ INFO) @ RESET_ALL @ INFO)
            @ [newline] @ INFO @ ''KeyError'' @ RESET_ALL),
      url_record
        \<lparr>args := DictArgs [(''url'', PyStr (RESET_ALL @ BLUE @ UNDERLINE
               @ (RESET_ALL @ BLUE @ UNDERLINE @ ''u'' @ RESET_ALL @ INFO) @ RESET_ALL @ INFO))],
         exc_text := Some ''KeyError'',
         message := Some (''GET '' @ (RESET_ALL @ BLUE @ UNDERLINE
               @ (RESET_ALL @ BLUE @ UNDERLINE @ ''u'' @ RESET_ALL @ INFO) @ RESET_ALL @ INFO)
                          @ [newline] @ INFO @ ''KeyError'')\<rparr>,
      initial_state\<lparr>style_fmt := INFO @ default_fmt @ RESET_ALL\<rparr>)"
  by (simp add: format_def url_record_def initial_state_def format_colorize_def format_args_def
      format_value_def MSG_ARGS_FORMAT_def inject_def upper_names getattr_names getMessage_def
      percent_def format_exc_cache_def format_exc_append_def format_stack_append_def
      formatMessage_def LOG_LEVEL_FORMAT_def default_fmt_def end_line_def recolor_def newline_def
      code_chars)

lemma format_multiline_record:
  "format multiline_record initial_state =
     (Inr (ERROR @ ''[ERROR] '' @ [CHR ''a'', newline] @ ERROR @ [CHR ''b'', newline] @ ERROR
           @ [CHR ''e'', newline] @ ERROR @ ''f'' @ RESET_ALL),
      multiline_record
        \<lparr>message := Some ([CHR ''a'', newline] @ ERROR @ [CHR ''b'', newline] @ ERROR
                          @ [CHR ''e'', newline] @ ERROR @ ''f'')\<rparr>,
      initial_state\<lparr>style_fmt := ERROR @ default_fmt @ RESET_ALL\<rparr>)"
  by (simp add: format_def multiline_record_def initial_state_def format_colorize_def
      getattr_names getMessage_def
      percent_def format_exc_cache_def format_exc_append_def format_stack_append_def
      formatMessage_def LOG_LEVEL_FORMAT_def default_fmt_def end_line_def recolor_def newline_def
      code_chars)

lemma recolor_append: "recolor c (a @ b) = recolor c a @ recolor c b"
  by (simp add: recolor_def)

lemma getMessage_same:
  "msg a = msg b \<Longrightarrow> args a = args b \<Longrightarrow> getMessage a = getMessage b"
  by (simp add: getMessage_def)

lemma format_stack_append_same:
  "stack_info a = stack_info b \<Longrightarrow> format_stack_append a m = format_stack_append b m"
  by (simp add: format_stack_append_def)

lemma format_exc_cache_same [simp]:
  "levelname (format_exc_cache r) = levelname r" "msg (format_exc_cache r) = msg r"
  "args (format_exc_cache r) = args r" "stack_info (format_exc_cache r) = stack_info r"
  "exc_info (format_exc_cache r) = exc_info r"
  by (simp_all add: format_exc_cache_def split: option.splits)

lemma format_colorize_same:
  assumes "format_colorize s r = Inr r1"
  shows "levelname r1 = levelname r" "msg r1 = msg r" "stack_info r1 = stack_info r"
    "exc_info r1 = exc_info r" "exc_text r1 = exc_text r"
  using assms
  by (auto simp: format_colorize_def split: record_args.splits if_splits sum.splits)

text \<open>The fields of the record that a successful call leaves as they were.\<close>

lemma format_Inr_fields:
  assumes "format r s = (Inr line, r', s')"
  shows "levelname r' = levelname r" "msg r' = msg r" "stack_info r' = stack_info r"
    "exc_info r' = exc_info r"
proof -
  from assms obtain r1 m m2 where
    1: "format_colorize s r = Inr r1"
    and 4: "r' = (format_exc_cache r1)
                  \<lparr>message := Some (format_stack_append (format_exc_cache r1) m2)\<rparr>"
    by (rule format_Inr)
  show "levelname r' = levelname r" "msg r' = msg r" "stack_info r' = stack_info r"
    "exc_info r' = exc_info r"
    by (simp_all add: 4 format_colorize_same [OF 1])
qed

text \<open>
  Claim C2, as amended. When rendered exception text exists and formatting succeeds, the
  formatter ends the base message with a newline, appends the exception text, and replaces
  every newline of the whole text so far, in the base message, at its end and in the
  exception text alike, by the newline followed by the color code of the record's level
  name; the stack text, if any, follows unrecolored. So the message is the recolored base
  message, which ends with a newline and the color code, then the recolored exception
  text.
\<close>

theorem format_recolors_whole_text:
  assumes "format r s = (Inr line, r', s')" and "truthy_text (exc_text r')"
  shows "\<exists>m c e. getMessage r' = Inr m \<and> AnsiColor_getattr (levelname r) = Inr c
     \<and> exc_text r' = Some e
     \<and> message r' = Some (format_stack_append r (recolor c (end_line m) @ recolor c e))
     \<and> line = final_line (levelname r)
                (format_stack_append r (recolor c (end_line m) @ recolor c e))"
proof -
  from assms(1) obtain r1 m m2 where
    1: "format_colorize s r = Inr r1" and 2: "getMessage r1 = Inr m"
    and 3: "format_exc_append (format_exc_cache r1) m = Inr m2"
    and 4: "r' = (format_exc_cache r1)
                  \<lparr>message := Some (format_stack_append (format_exc_cache r1) m2)\<rparr>"
    and 5: "line = final_line (levelname r) (format_stack_append (format_exc_cache r1) m2)"
    by (rule format_Inr)
  let ?r2 = "format_exc_cache r1"
  have lv: "levelname ?r2 = levelname r" and st: "stack_info ?r2 = stack_info r"
    and ms: "msg ?r2 = msg r1" and ar: "args ?r2 = args r1"
    by (simp_all add: format_colorize_same [OF 1])
  from assms(2) 4 have tr: "truthy_text (exc_text ?r2)"
    by simp
  then obtain e where e: "exc_text ?r2 = Some e"
    by (cases "exc_text ?r2") simp_all
  from 3 tr e lv obtain c where c: "AnsiColor_getattr (levelname r) = Inr c"
    and m2: "m2 = recolor c (end_line m @ e)"
    by (auto simp: format_exc_append_def split: sum.splits)
  have gm: "getMessage r' = Inr m"
    using getMessage_same [of r' r1] 2 ms ar by (simp add: 4)
  have sa: "format_stack_append ?r2 m2
              = format_stack_append r (recolor c (end_line m) @ recolor c e)"
    using format_stack_append_same [OF st] by (simp add: m2 recolor_append)
  from gm c e sa 4 5 show ?thesis
    by simp
qed

theorem format_recolors_whole_text_witness:
  "format multiline_record initial_state =
     (Inr (ERROR @ ''[ERROR] '' @ [CHR ''a'', newline] @ ERROR @ [CHR ''b'', newline] @ ERROR
           @ [CHR ''e'', newline] @ ERROR @ ''f'' @ RESET_ALL),
      multiline_record
        \<lparr>message := Some ([CHR ''a'', newline] @ ERROR @ [CHR ''b'', newline] @ ERROR
                          @ [CHR ''e'', newline] @ ERROR @ ''f'')\<rparr>,
      initial_state\<lparr>style_fmt := ERROR @ default_fmt @ RESET_ALL\<rparr>)
   \<and> (\<exists>m c e. getMessage multiline_record = Inr m \<and> AnsiColor_getattr ''ERROR'' = Inr c
          \<and> exc_text multiline_record = Some e
          \<and> Some ([CHR ''a'', newline] @ ERROR @ [CHR ''b'', newline] @ ERROR
                          @ [CHR ''e'', newline] @ ERROR @ ''f'')
              = Some (format_stack_append multiline_record (recolor c (end_line m) @ recolor c e)))"
proof -
  have t: "truthy_text (exc_text (multiline_record
        \<lparr>message := Some ([CHR ''a'', newline] @ ERROR @ [CHR ''b'', newline] @ ERROR
                          @ [CHR ''e'', newline] @ ERROR @ ''f'')\<rparr>))"
    by (simp add: multiline_record_def)
  have g: "getMessage (multiline_record\<lparr>message := x\<rparr>) = getMessage multiline_record" for x
    by (simp add: getMessage_def)
  have l: "levelname multiline_record = ''ERROR''"
    by (simp add: multiline_record_def)
  from format_recolors_whole_text [OF format_multiline_record t] format_multiline_record
  show ?thesis
    by (simp add: g l) blast
qed

text \<open>
  Claim C2 as stated fails: the newline inside the base message and the newline that
  separates it from the exception text are followed by the color code as well, so the
  message is not the base message, a newline and the exception text recolored alone.
\<close>

theorem recolor_only_exception_counterexample:
  "message (fst (snd (format multiline_record initial_state)))
     = Some ([CHR ''a'', newline] @ ERROR @ [CHR ''b'', newline] @ ERROR
             @ [CHR ''e'', newline] @ ERROR @ ''f'')
   \<and> message (fst (snd (format multiline_record initial_state)))
     \<noteq> Some ([CHR ''a'', newline, CHR ''b''] @ [newline] @ [CHR ''e'', newline] @ ERROR @ ''f'')"
  by (simp add: format_multiline_record) (simp add: code_chars newline_def)

lemma format_args_loop_nonempty:
  assumes "format_args_loop reg level acc items = Inr out" and "acc \<noteq> [] \<or> items \<noteq> []"
  shows "out \<noteq> []"
  using assms
proof (induction items arbitrary: acc)
  case Nil
  then show ?case by simp
next
  case (Cons a items)
  obtain k v where a: "a = (k, v)" by (cases a)
  from Cons.prems(1) a obtain x where
    loop: "format_args_loop reg level (AList.update k x acc) items = Inr out"
    by (auto split: sum.splits)
  have "AList.update k x acc \<noteq> []"
    by (cases acc) auto
  with Cons.IH [OF loop] show ?case by simp
qed

lemma inject_longer:
  assumes "inject m color style level = Inr y"
  shows "length m < length y"
proof -
  have "0 < length RESET_ALL"
    by (simp add: RESET_ALL_def colorcode_def)
  with assms show ?thesis
    by (auto simp: inject_def split: sum.splits)
qed

lemma format_args_twice:
  assumes 1: "format_args reg d level = Inr fd" and 2: "format_args reg fd level = Inr fd2"
    and dist: "distinct (map fst d)" and kv: "(k, v) \<in> set d" and c: "map_of reg k = Some c"
  shows "\<exists>color y y2. map_of c ''color'' = Some color
     \<and> inject (str v) color (case map_of c ''style'' of None \<Rightarrow> ''normal'' | Some st \<Rightarrow> st) level
         = Inr y
     \<and> map_of fd k = Some (PyStr y)
     \<and> inject y color (case map_of c ''style'' of None \<Rightarrow> ''normal'' | Some st \<Rightarrow> st) level
         = Inr y2
     \<and> map_of fd2 k = Some (PyStr y2) \<and> y2 \<noteq> y"
proof -
  let ?sty = "case map_of c ''style'' of None \<Rightarrow> ''normal'' | Some st \<Rightarrow> st"
  from format_args_loop_Inr [of reg level "[]" d fd] 1 dist
  have a: "list_all2 (item_formatted reg level) d fd"
    by (simp add: format_args_def)
  have keys: "map fst fd = map fst d"
    by (rule list_all2_item_keys [OF a])
  from list_all2_item_lookup [OF a dist kv]
  obtain x where x: "map_of fd k = Some x" "format_value reg level k v = Inr x"
    by blast
  from format_value_Inr [OF x(2)] c obtain color y where
    y: "map_of c ''color'' = Some color" "inject (str v) color ?sty level = Inr y" "x = PyStr y"
    by auto
  from format_args_loop_Inr [of reg level "[]" fd fd2] 2 dist keys
  have b: "list_all2 (item_formatted reg level) fd fd2"
    by (simp add: format_args_def)
  from x(1) y(3) have "(k, PyStr y) \<in> set fd"
    by (simp add: map_of_SomeD)
  from list_all2_item_lookup [OF b _ this] dist keys
  obtain x2 where x2: "map_of fd2 k = Some x2" "format_value reg level k (PyStr y) = Inr x2"
    by auto
  from format_value_Inr [OF x2(2)] c y(1) obtain y2 where
    y2: "inject y color ?sty level = Inr y2" "x2 = PyStr y2"
    by auto
  from inject_longer [OF y2(1)] have "y2 \<noteq> y"
    by auto
  with x y x2 y2 show ?thesis
    by blast
qed

lemma format_Inr_args:
  assumes "format r s = (Inr line, r', s')" and "args r = DictArgs d" and "d \<noteq> []"
  shows "\<exists>fd. format_args (registry s) d (levelname r) = Inr fd \<and> args r' = DictArgs fd
     \<and> fd \<noteq> []"
proof -
  from assms(1) obtain r1 m m2 where
    1: "format_colorize s r = Inr r1"
    and 4: "r' = (format_exc_cache r1)
                  \<lparr>message := Some (format_stack_append (format_exc_cache r1) m2)\<rparr>"
    by (rule format_Inr)
  from 1 assms(2,3) obtain fd where
    fd: "format_args (registry s) d (levelname r) = Inr fd" "r1 = r\<lparr>args := DictArgs fd\<rparr>"
    by (auto simp: format_colorize_def split: sum.splits)
  from fd(1) assms(3) have "fd \<noteq> []"
    using format_args_loop_nonempty [of "registry s" "levelname r" "[]" d fd]
    by (simp add: format_args_def)
  with fd 4 show ?thesis by simp
qed

lemma format_Inr_exc_text:
  assumes "format r s = (Inr line, r', s')" and "exc_info r = Some e"
    and "\<not> truthy_text (exc_text r)"
  shows "exc_text r' = Some e"
proof -
  from assms(1) obtain r1 m m2 where
    1: "format_colorize s r = Inr r1"
    and 4: "r' = (format_exc_cache r1)
                  \<lparr>message := Some (format_stack_append (format_exc_cache r1) m2)\<rparr>"
    by (rule format_Inr)
  from format_colorize_same(4,5) [OF 1] assms(2,3) show ?thesis
    by (simp add: 4 format_exc_cache_def)
qed

lemma format_Inr_message:
  assumes "format r s = (Inr line, r', s')"
  shows "\<exists>m. message r' = Some m \<and> line = final_line (levelname r) m"
proof -
  from assms(1) obtain r1 m m2 where
    "r' = (format_exc_cache r1)
            \<lparr>message := Some (format_stack_append (format_exc_cache r1) m2)\<rparr>"
    "line = final_line (levelname r) (format_stack_append (format_exc_cache r1) m2)"
    by (rule format_Inr)
  then show ?thesis by simp
qed

text \<open>
  Claim C10. A successful call of \<^verbatim>\<open>format\<close> leaves the record changed: a non-empty argument
  dictionary is replaced by the result of \<^verbatim>\<open>format_args\<close>, exception text that was not yet
  rendered is cached in \<^verbatim>\<open>exc_text\<close>, and \<^verbatim>\<open>message\<close> holds the composed text that the
  returned line wraps. A second successful call on the record so left runs
  \<^verbatim>\<open>format_args\<close> on the colorized dictionary: for each key of the registry the value is
  the injection of the first call's injection of \<^verbatim>\<open>str(value)\<close>, and the record's arguments
  after the second call differ from those after the first.
\<close>

theorem format_mutates_record:
  assumes "format r s = (Inr line, r', s')"
  shows "(\<forall>d. args r = DictArgs d \<and> d \<noteq> [] \<longrightarrow>
            (\<exists>fd. format_args (registry s) d (levelname r) = Inr fd \<and> args r' = DictArgs fd))
    \<and> (\<forall>e. exc_info r = Some e \<and> \<not> truthy_text (exc_text r) \<longrightarrow> exc_text r' = Some e)
    \<and> (\<exists>m. message r' = Some m \<and> line = final_line (levelname r) m)
    \<and> (\<forall>line2 r'' s'' d.
          format r' s' = (Inr line2, r'', s'') \<and> args r = DictArgs d \<and> d \<noteq> [] \<longrightarrow>
          (\<exists>fd fd2. args r' = DictArgs fd
             \<and> format_args (registry s) fd (levelname r) = Inr fd2
             \<and> args r'' = DictArgs fd2
             \<and> (\<forall>k v c.
                  distinct (map fst d) \<and> (k, v) \<in> set d \<and> map_of (registry s) k = Some c \<longrightarrow>
                  args r'' \<noteq> args r'
                  \<and> (\<exists>color style y y2.
                        inject (str v) color style (levelname r) = Inr y
                        \<and> map_of fd k = Some (PyStr y)
                        \<and> inject y color style (levelname r) = Inr y2
                        \<and> map_of fd2 k = Some (PyStr y2)))))"
proof (intro conjI allI impI)
  fix d assume "args r = DictArgs d \<and> d \<noteq> []"
  with format_Inr_args [OF assms]
  show "\<exists>fd. format_args (registry s) d (levelname r) = Inr fd \<and> args r' = DictArgs fd"
    by blast
next
  fix e assume "exc_info r = Some e \<and> \<not> truthy_text (exc_text r)"
  with format_Inr_exc_text [OF assms] show "exc_text r' = Some e"
    by blast
next
  show "\<exists>m. message r' = Some m \<and> line = final_line (levelname r) m"
    by (rule format_Inr_message [OF assms])
next
  fix line2 r'' s'' d
  assume a: "format r' s' = (Inr line2, r'', s'') \<and> args r = DictArgs d \<and> d \<noteq> []"
  from format_Inr_args [OF assms] a obtain fd where
    fd: "format_args (registry s) d (levelname r) = Inr fd" "args r' = DictArgs fd" "fd \<noteq> []"
    by blast
  have same: "registry s' = registry s" "levelname r' = levelname r"
    using format_frame [OF assms] format_Inr_fields(1) [OF assms] by simp_all
  from a have second: "format r' s' = (Inr line2, r'', s'')" ..
  from format_Inr_args [OF second fd(2,3)] same obtain fd2 where
    fd2: "format_args (registry s) fd (levelname r) = Inr fd2" "args r'' = DictArgs fd2"
    by auto
  have "args r'' \<noteq> args r'
          \<and> (\<exists>color style y y2.
                inject (str v) color style (levelname r) = Inr y
                \<and> map_of fd k = Some (PyStr y)
                \<and> inject y color style (levelname r) = Inr y2
                \<and> map_of fd2 k = Some (PyStr y2))"
    if "distinct (map fst d) \<and> (k, v) \<in> set d \<and> map_of (registry s) k = Some c" for k v c
  proof -
    from that have t: "distinct (map fst d)" "(k, v) \<in> set d" "map_of (registry s) k = Some c"
      by simp_all
    from format_args_twice [OF fd(1) fd2(1) t]
    obtain color y y2 where
      y: "inject (str v) color (case map_of c ''style'' of None \<Rightarrow> ''normal'' | Some st \<Rightarrow> st)
            (levelname r) = Inr y"
      "map_of fd k = Some (PyStr y)"
      "inject y color (case map_of c ''style'' of None \<Rightarrow> ''normal'' | Some st \<Rightarrow> st)
            (levelname r) = Inr y2"
      "map_of fd2 k = Some (PyStr y2)" "y2 \<noteq> y"
      by blast
    from y(2,4,5) have "fd2 \<noteq> fd"
      by auto
    with y fd(2) fd2(2) show ?thesis
      by auto
  qed
  with fd(2) fd2 show "\<exists>fd fd2. args r' = DictArgs fd
             \<and> format_args (registry s) fd (levelname r) = Inr fd2
             \<and> args r'' = DictArgs fd2
             \<and> (\<forall>k v c.
                  distinct (map fst d) \<and> (k, v) \<in> set d \<and> map_of (registry s) k = Some c \<longrightarrow>
                  args r'' \<noteq> args r'
                  \<and> (\<exists>color style y y2.
                        inject (str v) color style (levelname r) = Inr y
                        \<and> map_of fd k = Some (PyStr y)
                        \<and> inject y color style (levelname r) = Inr y2
                        \<and> map_of fd2 k = Some (PyStr y2)))"
    by blast
qed

theorem format_mutates_record_witness:
  "exc_info url_record = Some ''KeyError'' \<and> \<not> truthy_text (exc_text url_record)
   \<and> args url_record = DictArgs [(''url'', PyStr ''u'')]
   \<and> exc_text (fst (snd (format url_record initial_state))) = Some ''KeyError''
   \<and> (\<exists>fd. format_args (registry initial_state) [(''url'', PyStr ''u'')] ''INFO'' = Inr fd
          \<and> args (fst (snd (format url_record initial_state))) = DictArgs fd)
   \<and> args (fst (snd (format url_record initial_state)))
       = DictArgs [(''url'', PyStr (RESET_ALL @ BLUE @ UNDERLINE @ ''u'' @ RESET_ALL @ INFO))]
   \<and> args (fst (snd (format (fst (snd (format url_record initial_state)))
                        (snd (snd (format url_record initial_state))))))
       = DictArgs [(''url'', PyStr (RESET_ALL @ BLUE @ UNDERLINE
               @ (RESET_ALL @ BLUE @ UNDERLINE @ ''u'' @ RESET_ALL @ INFO) @ RESET_ALL @ INFO))]
   \<and> args (fst (snd (format (fst (snd (format url_record initial_state)))
                        (snd (snd (format url_record initial_state))))))
       \<noteq> args (fst (snd (format url_record initial_state)))"
proof -
  have given: "exc_info url_record = Some ''KeyError''" "\<not> truthy_text (exc_text url_record)"
    "args url_record = DictArgs [(''url'', PyStr ''u'')]" "levelname url_record = ''INFO''"
    by (simp_all add: url_record_def)
  note facts = format_mutates_record [OF format_url_record]
  from facts given(1,2) have cached:
    "exc_text (fst (snd (format url_record initial_state))) = Some ''KeyError''"
    unfolding format_url_record by simp
  from facts given(3,4) have colorized:
    "\<exists>fd. format_args (registry initial_state) [(''url'', PyStr ''u'')] ''INFO'' = Inr fd
          \<and> args (fst (snd (format url_record initial_state))) = DictArgs fd"
    unfolding format_url_record by simp
  have once: "args (fst (snd (format url_record initial_state)))
       = DictArgs [(''url'', PyStr (RESET_ALL @ BLUE @ UNDERLINE @ ''u'' @ RESET_ALL @ INFO))]"
    unfolding format_url_record by simp
  have twice: "args (fst (snd (format (fst (snd (format url_record initial_state)))
                        (snd (snd (format url_record initial_state))))))
       = DictArgs [(''url'', PyStr (RESET_ALL @ BLUE @ UNDERLINE
               @ (RESET_ALL @ BLUE @ UNDERLINE @ ''u'' @ RESET_ALL @ INFO) @ RESET_ALL @ INFO))]"
    unfolding format_url_record fst_conv snd_conv format_url_record_again by simp
  have differ: "args (fst (snd (format (fst (snd (format url_record initial_state)))
                        (snd (snd (format url_record initial_state))))))
       \<noteq> args (fst (snd (format url_record initial_state)))"
    unfolding twice once by (simp add: code_chars)
  from given(1-3) cached colorized once twice differ show ?thesis
    by blast
qed

end
